theory Spec2Isabelle
  imports Complex_Main "HOL-Library.Monad_Syntax" "HOL-Library.Word" "HOL-Library.AList"
begin

unbundle bit_operations_syntax

section \<open>Host values: JavaScript numbers as the interpreter uses them\<close>

text \<open>
  The interpreter stores Monkey integers in JavaScript numbers. Every number it can
  produce is an integer or one of the three non-finite doubles, because literals come
  from \<^verbatim>\<open>parseInt\<close>, and \<^verbatim>\<open>+\<close>, \<^verbatim>\<open>-\<close>, \<^verbatim>\<open>*\<close> and \<^verbatim>\<open>Math.floor(l / r)\<close> keep
  integers integral. \<open>Fin i\<close> stands for the double that holds the integer \<open>i\<close>; the
  model computes with the integer itself, which agrees with the double arithmetic as
  long as operands and results stay within the safe range (magnitude below \<open>2 ^ 53\<close>).
  The model has a single zero: where JavaScript yields \<^verbatim>\<open>-0\<close> the model has \<open>Fin 0\<close>
  (the two are \<^verbatim>\<open>===\<close> and differ only in the sign of an infinite quotient).
\<close>

datatype number = Fin int | PosInf | NegInf | NaN

fun num_neg :: "number \<Rightarrow> number" where
  "num_neg (Fin a) = Fin (- a)"
| "num_neg PosInf = NegInf"
| "num_neg NegInf = PosInf"
| "num_neg NaN = NaN"

fun num_add :: "number \<Rightarrow> number \<Rightarrow> number" where
  "num_add (Fin a) (Fin b) = Fin (a + b)"
| "num_add NaN _ = NaN"
| "num_add _ NaN = NaN"
| "num_add PosInf NegInf = NaN"
| "num_add NegInf PosInf = NaN"
| "num_add PosInf _ = PosInf"
| "num_add NegInf _ = NegInf"
| "num_add (Fin a) PosInf = PosInf"
| "num_add (Fin a) NegInf = NegInf"

definition num_sub :: "number \<Rightarrow> number \<Rightarrow> number" where
  "num_sub a b = num_add a (num_neg b)"

text \<open>The sign of a number, for the products and quotients that involve an infinity.\<close>

fun num_sign :: "number \<Rightarrow> int" where
  "num_sign (Fin a) = sgn a"
| "num_sign PosInf = 1"
| "num_sign NegInf = - 1"
| "num_sign NaN = 0"

definition inf_of_sign :: "int \<Rightarrow> number" where
  "inf_of_sign s = (if s = 0 then NaN else if 0 < s then PosInf else NegInf)"

fun num_mul :: "number \<Rightarrow> number \<Rightarrow> number" where
  "num_mul (Fin a) (Fin b) = Fin (a * b)"
| "num_mul NaN _ = NaN"
| "num_mul _ NaN = NaN"
| "num_mul a b = inf_of_sign (num_sign a * num_sign b)"

text \<open>
  \<^verbatim>\<open>Math.floor(leftVal / rightVal)\<close>. For finite operands and a non-zero divisor the
  double quotient lies strictly between the same two integers as the exact quotient, so
  its floor is the floor of the exact quotient: \<open>a div b\<close> on \<open>int\<close>. A zero divisor
  gives an infinity with the sign of the dividend, or NaN for \<^verbatim>\<open>0 / 0\<close>; a finite number
  divided by an infinity gives zero.
\<close>

fun num_floor_div :: "number \<Rightarrow> number \<Rightarrow> number" where
  "num_floor_div (Fin a) (Fin b) = (if b = 0 then inf_of_sign (sgn a) else Fin (a div b))"
| "num_floor_div NaN _ = NaN"
| "num_floor_div _ NaN = NaN"
| "num_floor_div (Fin a) _ = Fin 0"
| "num_floor_div a (Fin b) = (if b < 0 then num_neg a else a)"
| "num_floor_div _ _ = NaN"

fun num_less :: "number \<Rightarrow> number \<Rightarrow> bool" where
  "num_less (Fin a) (Fin b) = (a < b)"
| "num_less NaN _ = False"
| "num_less _ NaN = False"
| "num_less NegInf b = (b \<noteq> NegInf)"
| "num_less a PosInf = (a \<noteq> PosInf)"
| "num_less _ _ = False"

text \<open>\<^verbatim>\<open>===\<close> on numbers: NaN is not equal to itself.\<close>

definition num_eq :: "number \<Rightarrow> number \<Rightarrow> bool" where
  "num_eq a b = (a = b \<and> a \<noteq> NaN)"

subsection \<open>Numbers and text\<close>

definition digit_char :: "nat \<Rightarrow> char" where
  "digit_char d = char_of (48 + d)"

function nat_toString :: "nat \<Rightarrow> string" where
  "nat_toString n = (if n < 10 then [digit_char n] else nat_toString (n div 10) @ [digit_char (n mod 10)])"
  by pat_completeness auto
termination
  by (relation "measure id") auto

declare nat_toString.simps [simp del]

definition int_toString :: "int \<Rightarrow> string" where
  "int_toString i = (if i < 0 then CHR ''-'' # nat_toString (nat (- i)) else nat_toString (nat i))"

text \<open>\<^verbatim>\<open>`${value}`\<close> for a number (plain decimal notation; JavaScript switches to
  exponent notation only from \<open>10 ^ 21\<close> on, outside the safe range).\<close>

fun number_toString :: "number \<Rightarrow> string" where
  "number_toString (Fin i) = int_toString i"
| "number_toString PosInf = ''Infinity''"
| "number_toString NegInf = ''-Infinity''"
| "number_toString NaN = ''NaN''"

definition isDigit :: "char \<Rightarrow> bool" where
  "isDigit ch = (48 \<le> (of_char ch :: nat) \<and> (of_char ch :: nat) \<le> 57)"

definition digits_value :: "string \<Rightarrow> int" where
  "digits_value ds = foldl (\<lambda>a c. 10 * a + (int (of_char c) - 48)) 0 ds"

definition isWhiteSpace :: "char \<Rightarrow> bool" where
  "isWhiteSpace ch = (ch \<in> set [CHR '' '', CHR 0x09, CHR 0x0A, CHR 0x0B, CHR 0x0C, CHR 0x0D])"

text \<open>
  \<^verbatim>\<open>parseInt(literal, 10)\<close>: leading white space, an optional sign, then the longest
  run of decimal digits; NaN when there is no digit. The lexer's INT literals are
  non-empty runs of digits.
\<close>

definition parseInt :: "string \<Rightarrow> number" where
  "parseInt s =
     (let t = dropWhile isWhiteSpace s;
          (negative, r) = (case t of
               c # r \<Rightarrow> if c = CHR ''-'' then (True, r) else if c = CHR ''+'' then (False, r) else (False, t)
             | [] \<Rightarrow> (False, t));
          ds = takeWhile isDigit r
      in if ds = [] then NaN else Fin (if negative then - digits_value ds else digits_value ds))"

definition isNaN :: "number \<Rightarrow> bool" where
  "isNaN v = (v = NaN)"

section \<open>Tokens\<close>

text \<open>The token kinds of \<^verbatim>\<open>token.ts\<close>; \<open>tokenType_text\<close> is the string each constant holds.\<close>

datatype tokenType =
    token_ILLEGAL | token_EOF
  | token_IDENT | token_INT | token_STRING
  | token_ASSIGN | token_PLUS | token_MINUS | token_BANG | token_ASTERISK | token_SLASH
  | token_LT | token_GT | token_EQ | token_NOT_EQ
  | token_COMMA | token_SEMICOLON | token_COLON
  | token_LPAREN | token_RPAREN | token_LBRACE | token_RBRACE | token_LBRACKET | token_RBRACKET
  | token_FUNCTION | token_LET | token_TRUE | token_FALSE | token_IF | token_ELSE | token_RETURN

fun tokenType_text :: "tokenType \<Rightarrow> string" where
  "tokenType_text token_ILLEGAL = ''ILLEGAL''"
| "tokenType_text token_EOF = ''EOF''"
| "tokenType_text token_IDENT = ''IDENT''"
| "tokenType_text token_INT = ''INT''"
| "tokenType_text token_STRING = ''STRING''"
| "tokenType_text token_ASSIGN = ''=''"
| "tokenType_text token_PLUS = ''+''"
| "tokenType_text token_MINUS = ''-''"
| "tokenType_text token_BANG = ''!''"
| "tokenType_text token_ASTERISK = ''*''"
| "tokenType_text token_SLASH = ''/''"
| "tokenType_text token_LT = ''<''"
| "tokenType_text token_GT = ''>''"
| "tokenType_text token_EQ = ''==''"
| "tokenType_text token_NOT_EQ = ''!=''"
| "tokenType_text token_COMMA = '',''"
| "tokenType_text token_SEMICOLON = '';''"
| "tokenType_text token_COLON = '':''"
| "tokenType_text token_LPAREN = ''(''"
| "tokenType_text token_RPAREN = '')''"
| "tokenType_text token_LBRACE = ''{''"
| "tokenType_text token_RBRACE = ''}''"
| "tokenType_text token_LBRACKET = ''[''"
| "tokenType_text token_RBRACKET = '']''"
| "tokenType_text token_FUNCTION = ''FUNCTION''"
| "tokenType_text token_LET = ''LET''"
| "tokenType_text token_TRUE = ''TRUE''"
| "tokenType_text token_FALSE = ''FALSE''"
| "tokenType_text token_IF = ''IF''"
| "tokenType_text token_ELSE = ''ELSE''"
| "tokenType_text token_RETURN = ''RETURN''"

datatype token = Token (Type: tokenType) (Literal: string)

section \<open>Abstract syntax\<close>

datatype ident = Identifier (ident_token: token) (ident_value: string)

text \<open>
  One constructor per node class of \<^verbatim>\<open>ast.ts\<close>, with the fields of the class in the
  order of its declaration. A \<^verbatim>\<open>HashLiteral\<close> keeps its pairs in a Map keyed by the key
  expression objects, which are all distinct objects: a list of pairs in insertion order.
\<close>

datatype expression =
    IdentifierExpr ident
  | IntegerLiteral token number
  | StringLiteral token string
  | BooleanLiteral token bool
  | ArrayLiteral token "expression list"
  | HashLiteral token "(expression \<times> expression) list"
  | PrefixExpression token string expression
  | InfixExpression token expression string expression
  | IfExpression token expression blockStatement "blockStatement option"
  | FunctionLiteral token "ident list" blockStatement
  | CallExpression token expression "expression list"
  | IndexExpression token expression expression
and statement =
    LetStatement token ident expression
  | ReturnStatement token expression
  | ExpressionStatement token expression
  | BlockStmt blockStatement
and blockStatement = BlockStatement (block_token: token) (block_statements: "statement list")

datatype program = Program (statements: "statement list")


subsection \<open>Rendering\<close>

text \<open>The \<^verbatim>\<open>toString()\<close> methods; \<open>join\<close> is \<^verbatim>\<open>Array.prototype.join\<close>.\<close>

fun join :: "string \<Rightarrow> string list \<Rightarrow> string" where
  "join sep [] = []"
| "join sep [x] = x"
| "join sep (x # y # ys) = x @ sep @ join sep (y # ys)"

fun expression_toString :: "expression \<Rightarrow> string"
and statement_toString :: "statement \<Rightarrow> string"
and blockStatement_toString :: "blockStatement \<Rightarrow> string"
where
  "expression_toString (IdentifierExpr ident) = ident_value ident"
| "expression_toString (IntegerLiteral tok v) = Literal tok"
| "expression_toString (StringLiteral tok v) = Literal tok"
| "expression_toString (BooleanLiteral tok v) = Literal tok"
| "expression_toString (ArrayLiteral tok elements) =
     ''['' @ join '', '' (map expression_toString elements) @ '']''"
| "expression_toString (HashLiteral tok pairs) =
     ''{'' @ join '', '' (map (\<lambda>pair. expression_toString (fst pair) @ '':'' @ expression_toString (snd pair)) pairs)
       @ ''}''"
| "expression_toString (PrefixExpression tok operator right) =
     ''('' @ operator @ expression_toString right @ '')''"
| "expression_toString (InfixExpression tok left operator right) =
     ''('' @ expression_toString left @ '' '' @ operator @ '' '' @ expression_toString right @ '')''"
| "expression_toString (IfExpression tok condition consequence alternative) =
     ''if'' @ expression_toString condition @ '' '' @ blockStatement_toString consequence
       @ (case alternative of Some alt \<Rightarrow> ''else '' @ blockStatement_toString alt | None \<Rightarrow> [])"
| "expression_toString (FunctionLiteral tok parameters body) =
     Literal tok @ ''('' @ join '', '' (map ident_value parameters) @ '') '' @ blockStatement_toString body"
| "expression_toString (CallExpression tok func args) =
     expression_toString func @ ''('' @ join '', '' (map expression_toString args) @ '')''"
| "expression_toString (IndexExpression tok left index) =
     ''('' @ expression_toString left @ ''['' @ expression_toString index @ ''])''"
| "statement_toString (LetStatement tok name v) =
     Literal tok @ '' '' @ ident_value name @ '' = '' @ expression_toString v @ '';''"
| "statement_toString (ReturnStatement tok returnValue) =
     Literal tok @ '' '' @ expression_toString returnValue @ '';''"
| "statement_toString (ExpressionStatement tok expr) = expression_toString expr"
| "statement_toString (BlockStmt block) = blockStatement_toString block"
| "blockStatement_toString (BlockStatement tok stmts) = concat (map statement_toString stmts)"

definition program_toString :: "program \<Rightarrow> string" where
  "program_toString program = concat (map statement_toString (statements program))"

section \<open>The parser\<close>

text \<open>The \<^verbatim>\<open>Precedence\<close> enumeration: consecutive numbers from \<open>Precedence_LOWEST = 1\<close>.\<close>

definition Precedence_LOWEST :: nat where "Precedence_LOWEST = 1"
definition Precedence_EQUALS :: nat where "Precedence_EQUALS = 2"
definition Precedence_LESSGREATER :: nat where "Precedence_LESSGREATER = 3"
definition Precedence_SUM :: nat where "Precedence_SUM = 4"
definition Precedence_PRODUCT :: nat where "Precedence_PRODUCT = 5"
definition Precedence_PREFIX :: nat where "Precedence_PREFIX = 6"
definition Precedence_CALL :: nat where "Precedence_CALL = 7"
definition Precedence_INDEX :: nat where "Precedence_INDEX = 8"

lemmas Precedence_defs =
  Precedence_LOWEST_def Precedence_EQUALS_def Precedence_LESSGREATER_def Precedence_SUM_def Precedence_PRODUCT_def Precedence_PREFIX_def Precedence_CALL_def Precedence_INDEX_def

fun precedences :: "tokenType \<Rightarrow> nat option" where
  "precedences token_EQ = Some Precedence_EQUALS"
| "precedences token_NOT_EQ = Some Precedence_EQUALS"
| "precedences token_LT = Some Precedence_LESSGREATER"
| "precedences token_GT = Some Precedence_LESSGREATER"
| "precedences token_PLUS = Some Precedence_SUM"
| "precedences token_MINUS = Some Precedence_SUM"
| "precedences token_SLASH = Some Precedence_PRODUCT"
| "precedences token_ASTERISK = Some Precedence_PRODUCT"
| "precedences token_LPAREN = Some Precedence_CALL"
| "precedences token_LBRACKET = Some Precedence_INDEX"
| "precedences _ = None"

text \<open>
  The parser's fields. The lexer is the collaborator behind \<^verbatim>\<open>nextToken()\<close>: it is
  represented by the tokens it has still to deliver before the end of the input, and
  from then on it delivers EOF tokens for ever.
\<close>

record parser =
  lexer :: "token list"
  errors :: "string list"
  curToken :: token
  peekToken :: token

fun lexer_nextToken :: "token list \<Rightarrow> token \<times> token list" where
  "lexer_nextToken [] = (Token token_EOF [], [])"
| "lexer_nextToken (t # ts) = (t, ts)"

definition nextToken :: "parser \<Rightarrow> parser" where
  "nextToken p =
     (let (t, l) = lexer_nextToken (lexer p)
      in p\<lparr>curToken := peekToken p, peekToken := t, lexer := l\<rparr>)"

text \<open>The constructor: the two placeholder tokens are overwritten by two reads.\<close>

definition newParser :: "token list \<Rightarrow> parser" where
  "newParser l =
     nextToken (nextToken \<lparr>lexer = l, errors = [],
       curToken = Token token_ILLEGAL [], peekToken = Token token_ILLEGAL []\<rparr>)"

definition curTokenIs :: "tokenType \<Rightarrow> parser \<Rightarrow> bool" where
  "curTokenIs t p = (Type (curToken p) = t)"

definition peekTokenIs :: "tokenType \<Rightarrow> parser \<Rightarrow> bool" where
  "peekTokenIs t p = (Type (peekToken p) = t)"

definition peekError :: "tokenType \<Rightarrow> parser \<Rightarrow> parser" where
  "peekError t p =
     p\<lparr>errors := errors p @
        [''expected next token to be '' @ tokenType_text t @ '', got '' @
         tokenType_text (Type (peekToken p)) @ '' instead'']\<rparr>"

definition expectPeek :: "tokenType \<Rightarrow> parser \<Rightarrow> bool \<times> parser" where
  "expectPeek t p = (if peekTokenIs t p then (True, nextToken p) else (False, peekError t p))"

definition noPrefixParseFnError :: "tokenType \<Rightarrow> parser \<Rightarrow> parser" where
  "noPrefixParseFnError t p =
     p\<lparr>errors := errors p @ [''no prefix parse function for '' @ tokenType_text t @ '' found'']\<rparr>"

definition peekPrecedence :: "parser \<Rightarrow> nat" where
  "peekPrecedence p = (case precedences (Type (peekToken p)) of Some q \<Rightarrow> q | None \<Rightarrow> Precedence_LOWEST)"

definition curPrecedence :: "parser \<Rightarrow> nat" where
  "curPrecedence p = (case precedences (Type (curToken p)) of Some q \<Rightarrow> q | None \<Rightarrow> Precedence_LOWEST)"

text \<open>The two handler tables, as filled by the constructor.\<close>

datatype prefixParseFn =
    parseIdentifier_fn | parseIntegerLiteral_fn | parseStringLiteral_fn | parsePrefixExpression_fn
  | parseBoolean_fn | parseGroupedExpression_fn | parseIfExpression_fn | parseFunctionLiteral_fn
  | parseArrayLiteral_fn | parseHashLiteral_fn

datatype infixParseFn = parseInfixExpression_fn | parseCallExpression_fn | parseIndexExpression_fn

fun prefixParseFns :: "tokenType \<Rightarrow> prefixParseFn option" where
  "prefixParseFns token_IDENT = Some parseIdentifier_fn"
| "prefixParseFns token_INT = Some parseIntegerLiteral_fn"
| "prefixParseFns token_STRING = Some parseStringLiteral_fn"
| "prefixParseFns token_BANG = Some parsePrefixExpression_fn"
| "prefixParseFns token_MINUS = Some parsePrefixExpression_fn"
| "prefixParseFns token_TRUE = Some parseBoolean_fn"
| "prefixParseFns token_FALSE = Some parseBoolean_fn"
| "prefixParseFns token_LPAREN = Some parseGroupedExpression_fn"
| "prefixParseFns token_IF = Some parseIfExpression_fn"
| "prefixParseFns token_FUNCTION = Some parseFunctionLiteral_fn"
| "prefixParseFns token_LBRACKET = Some parseArrayLiteral_fn"
| "prefixParseFns token_LBRACE = Some parseHashLiteral_fn"
| "prefixParseFns _ = None"

fun infixParseFns :: "tokenType \<Rightarrow> infixParseFn option" where
  "infixParseFns token_PLUS = Some parseInfixExpression_fn"
| "infixParseFns token_MINUS = Some parseInfixExpression_fn"
| "infixParseFns token_SLASH = Some parseInfixExpression_fn"
| "infixParseFns token_ASTERISK = Some parseInfixExpression_fn"
| "infixParseFns token_EQ = Some parseInfixExpression_fn"
| "infixParseFns token_NOT_EQ = Some parseInfixExpression_fn"
| "infixParseFns token_LT = Some parseInfixExpression_fn"
| "infixParseFns token_GT = Some parseInfixExpression_fn"
| "infixParseFns token_LPAREN = Some parseCallExpression_fn"
| "infixParseFns token_LBRACKET = Some parseIndexExpression_fn"
| "infixParseFns _ = None"

subsection \<open>Handlers that do not recurse\<close>

text \<open>A parse function returns its node, or \<open>None\<close> for \<^verbatim>\<open>null\<close>, and the parser it leaves.\<close>

definition parseIdentifier :: "parser \<Rightarrow> expression option \<times> parser" where
  "parseIdentifier p = (Some (IdentifierExpr (Identifier (curToken p) (Literal (curToken p)))), p)"

definition parseIntegerLiteral :: "parser \<Rightarrow> expression option \<times> parser" where
  "parseIntegerLiteral p =
     (let v = parseInt (Literal (curToken p))
      in if isNaN v
         then (None, p\<lparr>errors := errors p @
                 [''could not parse '' @ Literal (curToken p) @ '' as integer'']\<rparr>)
         else (Some (IntegerLiteral (curToken p) v), p))"

definition parseStringLiteral :: "parser \<Rightarrow> expression option \<times> parser" where
  "parseStringLiteral p = (Some (StringLiteral (curToken p) (Literal (curToken p))), p)"

definition parseBoolean :: "parser \<Rightarrow> expression option \<times> parser" where
  "parseBoolean p = (Some (BooleanLiteral (curToken p) (curTokenIs token_TRUE p)), p)"

text \<open>
  \<^verbatim>\<open>parseFunctionParameters\<close>: each round of the loop reads a comma and an
  identifier. It ends because a comma in \<open>peekToken\<close> is one of finitely many tokens
  still to be read.
\<close>

function parseFunctionParameters_loop :: "ident list \<Rightarrow> parser \<Rightarrow> ident list \<times> parser" where
  "parseFunctionParameters_loop identifiers p =
     (if peekTokenIs token_COMMA p
      then (let p2 = nextToken (nextToken p)
            in parseFunctionParameters_loop
                 (identifiers @ [Identifier (curToken p2) (Literal (curToken p2))]) p2)
      else (identifiers, p))"
  by pat_completeness auto
termination
proof (relation "measure (\<lambda>(ids, p). length (lexer p) + (if peekTokenIs token_COMMA p then 1 else 0))")
  fix identifiers :: "ident list" and p p2 :: parser
  assume "peekTokenIs token_COMMA p" and p2: "p2 = nextToken (nextToken p)"
  have shorter: "length (snd (lexer_nextToken l)) \<le> length l
      \<and> (Type (fst (lexer_nextToken l)) = token_COMMA \<longrightarrow> length (snd (lexer_nextToken l)) < length l)"
    for l by (cases l) auto
  have "length (lexer p2) + (if peekTokenIs token_COMMA p2 then 1 else 0) \<le> length (lexer p)"
    using shorter [of "lexer p"] shorter [of "snd (lexer_nextToken (lexer p))"]
    by (auto simp: p2 nextToken_def peekTokenIs_def split: prod.splits)
  with \<open>peekTokenIs token_COMMA p\<close>
  show "((identifiers @ [Identifier (curToken p2) (Literal (curToken p2))], p2), identifiers, p)
      \<in> measure (\<lambda>(ids, p). length (lexer p) + (if peekTokenIs token_COMMA p then 1 else 0))"
    by simp
qed simp

declare parseFunctionParameters_loop.simps [simp del]

definition parseFunctionParameters :: "parser \<Rightarrow> ident list option \<times> parser" where
  "parseFunctionParameters p =
     (if peekTokenIs token_RPAREN p then (Some [], nextToken p)
      else (let p1 = nextToken p;
                (identifiers, p2) =
                   parseFunctionParameters_loop [Identifier (curToken p1) (Literal (curToken p1))] p1;
                (ok, p3) = expectPeek token_RPAREN p2
            in if \<not> ok then (None, p3) else (Some identifiers, p3)))"

subsection \<open>The recursive descent\<close>

text \<open>
  The parse functions call each other; the first argument bounds the depth of calls and
  loop rounds still allowed, and \<open>None\<close> at the outer level means that this bound was
  reached. Inside, a node that is \<open>None\<close> is the \<^verbatim>\<open>null\<close> the source returns after
  recording an error.
\<close>

function parseStatement :: "nat \<Rightarrow> parser \<Rightarrow> (statement option \<times> parser) option"
and parseLetStatement :: "nat \<Rightarrow> parser \<Rightarrow> (statement option \<times> parser) option"
and parseReturnStatement :: "nat \<Rightarrow> parser \<Rightarrow> (statement option \<times> parser) option"
and parseExpressionStatement :: "nat \<Rightarrow> parser \<Rightarrow> (statement option \<times> parser) option"
and parseBlockStatement :: "nat \<Rightarrow> parser \<Rightarrow> (blockStatement \<times> parser) option"
and parseBlockStatement_loop :: "nat \<Rightarrow> statement list \<Rightarrow> parser \<Rightarrow> (statement list \<times> parser) option"
and parseExpression :: "nat \<Rightarrow> nat \<Rightarrow> parser \<Rightarrow> (expression option \<times> parser) option"
and parseExpression_loop :: "nat \<Rightarrow> nat \<Rightarrow> expression \<Rightarrow> parser \<Rightarrow> (expression option \<times> parser) option"
and parseArrayLiteral :: "nat \<Rightarrow> parser \<Rightarrow> (expression option \<times> parser) option"
and parseHashLiteral :: "nat \<Rightarrow> parser \<Rightarrow> (expression option \<times> parser) option"
and parseHashLiteral_loop :: "nat \<Rightarrow> (expression \<times> expression) list \<Rightarrow> parser
      \<Rightarrow> ((expression \<times> expression) list option \<times> parser) option"
and parsePrefixExpression :: "nat \<Rightarrow> parser \<Rightarrow> (expression option \<times> parser) option"
and parseGroupedExpression :: "nat \<Rightarrow> parser \<Rightarrow> (expression option \<times> parser) option"
and parseIfExpression :: "nat \<Rightarrow> parser \<Rightarrow> (expression option \<times> parser) option"
and parseFunctionLiteral :: "nat \<Rightarrow> parser \<Rightarrow> (expression option \<times> parser) option"
and parseInfixExpression :: "nat \<Rightarrow> expression \<Rightarrow> parser \<Rightarrow> (expression option \<times> parser) option"
and parseCallExpression :: "nat \<Rightarrow> expression \<Rightarrow> parser \<Rightarrow> (expression option \<times> parser) option"
and parseIndexExpression :: "nat \<Rightarrow> expression \<Rightarrow> parser \<Rightarrow> (expression option \<times> parser) option"
and parseExpressionList :: "nat \<Rightarrow> tokenType \<Rightarrow> parser \<Rightarrow> (expression list option \<times> parser) option"
and parseExpressionList_loop :: "nat \<Rightarrow> expression list \<Rightarrow> parser \<Rightarrow> (expression list option \<times> parser) option"
where
  "parseStatement 0 p = None"
| "parseStatement (Suc n) p =
     (if Type (curToken p) = token_LET then parseLetStatement n p
      else if Type (curToken p) = token_RETURN then parseReturnStatement n p
      else parseExpressionStatement n p)"

| "parseLetStatement 0 p = None"
| "parseLetStatement (Suc n) p =
     (let stmtToken = curToken p;
          (ok, p1) = expectPeek token_IDENT p
      in if \<not> ok then Some (None, p1)
         else
          (let name = Identifier (curToken p1) (Literal (curToken p1));
               (ok, p2) = expectPeek token_ASSIGN p1
           in if \<not> ok then Some (None, p2)
              else do {
                (val, p3) \<leftarrow> parseExpression n Precedence_LOWEST (nextToken p2);
                (case val of
                   None \<Rightarrow> Some (None, p3)
                 | Some v \<Rightarrow>
                     Some (Some (LetStatement stmtToken name v),
                           if peekTokenIs token_SEMICOLON p3 then nextToken p3 else p3))
              }))"

| "parseReturnStatement 0 p = None"
| "parseReturnStatement (Suc n) p =
     (let stmtToken = curToken p
      in do {
        (returnValue, p1) \<leftarrow> parseExpression n Precedence_LOWEST (nextToken p);
        (case returnValue of
           None \<Rightarrow> Some (None, p1)
         | Some v \<Rightarrow>
             Some (Some (ReturnStatement stmtToken v),
                   if peekTokenIs token_SEMICOLON p1 then nextToken p1 else p1))
      })"

| "parseExpressionStatement 0 p = None"
| "parseExpressionStatement (Suc n) p =
     (let stmtToken = curToken p
      in do {
        (expr, p1) \<leftarrow> parseExpression n Precedence_LOWEST p;
        (case expr of
           None \<Rightarrow> Some (None, p1)
         | Some e \<Rightarrow>
             Some (Some (ExpressionStatement stmtToken e),
                   if peekTokenIs token_SEMICOLON p1 then nextToken p1 else p1))
      })"

| "parseBlockStatement 0 p = None"
| "parseBlockStatement (Suc n) p =
     (let blockToken = curToken p
      in do {
        (stmts, p1) \<leftarrow> parseBlockStatement_loop n [] (nextToken p);
        Some (BlockStatement blockToken stmts, p1)
      })"

| "parseBlockStatement_loop 0 stmts p = None"
| "parseBlockStatement_loop (Suc n) stmts p =
     (if \<not> curTokenIs token_RBRACE p \<and> \<not> curTokenIs token_EOF p
      then do {
        (stmt, p1) \<leftarrow> parseStatement n p;
        parseBlockStatement_loop n
          (case stmt of None \<Rightarrow> stmts | Some st \<Rightarrow> stmts @ [st]) (nextToken p1)
      }
      else Some (stmts, p))"

| "parseExpression 0 precedence p = None"
| "parseExpression (Suc n) precedence p =
     (case prefixParseFns (Type (curToken p)) of
        None \<Rightarrow> Some (None, noPrefixParseFnError (Type (curToken p)) p)
      | Some prefix \<Rightarrow> do {
          (leftExp, p1) \<leftarrow>
            (case prefix of
               parseIdentifier_fn \<Rightarrow> Some (parseIdentifier p)
             | parseIntegerLiteral_fn \<Rightarrow> Some (parseIntegerLiteral p)
             | parseStringLiteral_fn \<Rightarrow> Some (parseStringLiteral p)
             | parsePrefixExpression_fn \<Rightarrow> parsePrefixExpression n p
             | parseBoolean_fn \<Rightarrow> Some (parseBoolean p)
             | parseGroupedExpression_fn \<Rightarrow> parseGroupedExpression n p
             | parseIfExpression_fn \<Rightarrow> parseIfExpression n p
             | parseFunctionLiteral_fn \<Rightarrow> parseFunctionLiteral n p
             | parseArrayLiteral_fn \<Rightarrow> parseArrayLiteral n p
             | parseHashLiteral_fn \<Rightarrow> parseHashLiteral n p);
          (case leftExp of
             None \<Rightarrow> Some (None, p1)
           | Some l \<Rightarrow> parseExpression_loop n precedence l p1)
        })"

| "parseExpression_loop 0 precedence leftExp p = None"
| "parseExpression_loop (Suc n) precedence leftExp p =
     (if \<not> peekTokenIs token_SEMICOLON p \<and> precedence < peekPrecedence p
      then (case infixParseFns (Type (peekToken p)) of
              None \<Rightarrow> Some (Some leftExp, p)
            | Some infix \<Rightarrow> do {
                (leftExp', p1) \<leftarrow>
                  (case infix of
                     parseInfixExpression_fn \<Rightarrow> parseInfixExpression n leftExp (nextToken p)
                   | parseCallExpression_fn \<Rightarrow> parseCallExpression n leftExp (nextToken p)
                   | parseIndexExpression_fn \<Rightarrow> parseIndexExpression n leftExp (nextToken p));
                (case leftExp' of
                   None \<Rightarrow> Some (None, p1)
                 | Some l \<Rightarrow> parseExpression_loop n precedence l p1)
              })
      else Some (Some leftExp, p))"

| "parseArrayLiteral 0 p = None"
| "parseArrayLiteral (Suc n) p =
     (let arrayToken = curToken p
      in do {
        (elements, p1) \<leftarrow> parseExpressionList n token_RBRACKET p;
        (case elements of
           None \<Rightarrow> Some (None, p1)
         | Some els \<Rightarrow> Some (Some (ArrayLiteral arrayToken els), p1))
      })"

| "parseHashLiteral 0 p = None"
| "parseHashLiteral (Suc n) p =
     (let hashToken = curToken p
      in do {
        (pairs, p1) \<leftarrow> parseHashLiteral_loop n [] p;
        (case pairs of
           None \<Rightarrow> Some (None, p1)
         | Some ps \<Rightarrow>
             (let (ok, p2) = expectPeek token_RBRACE p1
              in if \<not> ok then Some (None, p2) else Some (Some (HashLiteral hashToken ps), p2)))
      })"

| "parseHashLiteral_loop 0 pairs p = None"
| "parseHashLiteral_loop (Suc n) pairs p =
     (if \<not> peekTokenIs token_RBRACE p
      then do {
        (key, p1) \<leftarrow> parseExpression n Precedence_LOWEST (nextToken p);
        (case key of
           None \<Rightarrow> Some (None, p1)
         | Some k \<Rightarrow>
             (let (ok, p2) = expectPeek token_COLON p1
              in if \<not> ok then Some (None, p2)
                 else do {
                   (val, p3) \<leftarrow> parseExpression n Precedence_LOWEST (nextToken p2);
                   (case val of
                      None \<Rightarrow> Some (None, p3)
                    | Some v \<Rightarrow>
                        (if \<not> peekTokenIs token_RBRACE p3
                         then (let (ok, p4) = expectPeek token_COMMA p3
                               in if \<not> ok then Some (None, p4)
                                  else parseHashLiteral_loop n (pairs @ [(k, v)]) p4)
                         else parseHashLiteral_loop n (pairs @ [(k, v)]) p3))
                 }))
      }
      else Some (Some pairs, p))"

| "parsePrefixExpression 0 p = None"
| "parsePrefixExpression (Suc n) p =
     (let exprToken = curToken p;
          operator = Literal (curToken p)
      in do {
        (right, p1) \<leftarrow> parseExpression n Precedence_PREFIX (nextToken p);
        (case right of
           None \<Rightarrow> Some (None, p1)
         | Some r \<Rightarrow> Some (Some (PrefixExpression exprToken operator r), p1))
      })"

| "parseGroupedExpression 0 p = None"
| "parseGroupedExpression (Suc n) p =
     do {
       (exp, p1) \<leftarrow> parseExpression n Precedence_LOWEST (nextToken p);
       (let (ok, p2) = expectPeek token_RPAREN p1
        in if \<not> ok then Some (None, p2) else Some (exp, p2))
     }"

| "parseIfExpression 0 p = None"
| "parseIfExpression (Suc n) p =
     (let exprToken = curToken p;
          (ok, p1) = expectPeek token_LPAREN p
      in if \<not> ok then Some (None, p1)
         else do {
           (condition, p2) \<leftarrow> parseExpression n Precedence_LOWEST (nextToken p1);
           (case condition of
              None \<Rightarrow> Some (None, p2)
            | Some c \<Rightarrow>
                (let (ok, p3) = expectPeek token_RPAREN p2
                 in if \<not> ok then Some (None, p3)
                    else
                     (let (ok, p4) = expectPeek token_LBRACE p3
                      in if \<not> ok then Some (None, p4)
                         else do {
                           (consequence, p5) \<leftarrow> parseBlockStatement n p4;
                           (if peekTokenIs token_ELSE p5
                            then (let (ok, p6) = expectPeek token_LBRACE (nextToken p5)
                                  in if \<not> ok then Some (None, p6)
                                     else do {
                                       (alternative, p7) \<leftarrow> parseBlockStatement n p6;
                                       Some (Some (IfExpression exprToken c consequence (Some alternative)), p7)
                                     })
                            else Some (Some (IfExpression exprToken c consequence None), p5))
                         })))
         })"

| "parseFunctionLiteral 0 p = None"
| "parseFunctionLiteral (Suc n) p =
     (let litToken = curToken p;
          (ok, p1) = expectPeek token_LPAREN p
      in if \<not> ok then Some (None, p1)
         else
          (let (parameters, p2) = parseFunctionParameters p1
           in case parameters of
                None \<Rightarrow> Some (None, p2)
              | Some ps \<Rightarrow>
                  (let (ok, p3) = expectPeek token_LBRACE p2
                   in if \<not> ok then Some (None, p3)
                      else do {
                        (body, p4) \<leftarrow> parseBlockStatement n p3;
                        Some (Some (FunctionLiteral litToken ps body), p4)
                      })))"

| "parseInfixExpression 0 left p = None"
| "parseInfixExpression (Suc n) left p =
     (let exprToken = curToken p;
          operator = Literal (curToken p);
          precedence = curPrecedence p
      in do {
        (right, p1) \<leftarrow> parseExpression n precedence (nextToken p);
        (case right of
           None \<Rightarrow> Some (None, p1)
         | Some r \<Rightarrow> Some (Some (InfixExpression exprToken left operator r), p1))
      })"

| "parseCallExpression 0 func p = None"
| "parseCallExpression (Suc n) func p =
     (let callToken = curToken p
      in do {
        (args, p1) \<leftarrow> parseExpressionList n token_RPAREN p;
        (case args of
           None \<Rightarrow> Some (None, p1)
         | Some as \<Rightarrow> Some (Some (CallExpression callToken func as), p1))
      })"

| "parseIndexExpression 0 left p = None"
| "parseIndexExpression (Suc n) left p =
     (let exprToken = curToken p
      in do {
        (index, p1) \<leftarrow> parseExpression n Precedence_LOWEST (nextToken p);
        (case index of
           None \<Rightarrow> Some (None, p1)
         | Some i \<Rightarrow>
             (let (ok, p2) = expectPeek token_RBRACKET p1
              in if \<not> ok then Some (None, p2)
                 else Some (Some (IndexExpression exprToken left i), p2)))
      })"

| "parseExpressionList 0 end p = None"
| "parseExpressionList (Suc n) end p =
     (if peekTokenIs end p then Some (Some [], nextToken p)
      else do {
        (firstExpr, p1) \<leftarrow> parseExpression n Precedence_LOWEST (nextToken p);
        (case firstExpr of
           None \<Rightarrow> Some (None, p1)
         | Some f \<Rightarrow> do {
             (rest, p2) \<leftarrow> parseExpressionList_loop n [f] p1;
             (case rest of
                None \<Rightarrow> Some (None, p2)
              | Some list \<Rightarrow>
                  (let (ok, p3) = expectPeek end p2
                   in if \<not> ok then Some (None, p3) else Some (Some list, p3)))
           })
      })"

| "parseExpressionList_loop 0 list p = None"
| "parseExpressionList_loop (Suc n) list p =
     (if peekTokenIs token_COMMA p
      then do {
        (expr, p1) \<leftarrow> parseExpression n Precedence_LOWEST (nextToken (nextToken p));
        (case expr of
           None \<Rightarrow> Some (None, p1)
         | Some e \<Rightarrow> parseExpressionList_loop n (list @ [e]) p1)
      }
      else Some (Some list, p))"
  by pat_completeness auto

text \<open>Every call passes a smaller bound: the bound is the measure, whichever function is called.\<close>

termination
  by (relation "measure
        (case_sum
          (case_sum (case_sum (case_sum fst fst) (case_sum fst (case_sum fst fst)))
                    (case_sum (case_sum fst fst) (case_sum fst (case_sum fst fst))))
          (case_sum (case_sum (case_sum fst fst) (case_sum fst (case_sum fst fst)))
                    (case_sum (case_sum fst fst) (case_sum fst (case_sum fst fst)))))")
     simp_all

text \<open>\<^verbatim>\<open>parseProgram\<close>: the loop over the top-level statements, up to the EOF token.\<close>

fun parseProgram_loop :: "nat \<Rightarrow> statement list \<Rightarrow> parser \<Rightarrow> (statement list \<times> parser) option" where
  "parseProgram_loop 0 stmts p = None"
| "parseProgram_loop (Suc n) stmts p =
     (if \<not> curTokenIs token_EOF p
      then do {
        (stmt, p1) \<leftarrow> parseStatement n p;
        parseProgram_loop n
          (case stmt of None \<Rightarrow> stmts | Some st \<Rightarrow> stmts @ [st]) (nextToken p1)
      }
      else Some (stmts, p))"

definition parseProgram :: "nat \<Rightarrow> parser \<Rightarrow> (program \<times> parser) option" where
  "parseProgram n p = do { (stmts, p1) \<leftarrow> parseProgram_loop n [] p; Some (Program stmts, p1) }"

section \<open>Runtime objects\<close>

text \<open>
  A value that the evaluator passes around is a reference to an object, or one of the
  host's two empty values: \<^verbatim>\<open>null\<close> (what \<^verbatim>\<open>evalNode\<close> returns for "no value") or
  \<^verbatim>\<open>undefined\<close> (what reading an array beyond its end gives).
\<close>

datatype 'a nullable = Undefined | Null | Obj 'a

text \<open>
  An environment object owns a mutable store and has an outer link that never changes
  after construction. The stores live in the heap, addressed by number; an environment
  is the address of its store together with its outer environment.
\<close>

datatype environment = Environment (store_addr: nat) (outer: "environment option")

datatype builtinFunction =
  builtin_len | builtin_first | builtin_last | builtin_rest | builtin_push | builtin_puts | builtin_write

text \<open>
  One constructor per object class of \<^verbatim>\<open>object.ts\<close>. The first field is the identity
  of the object: every \<^verbatim>\<open>new\<close> takes the next unused number, and \<^verbatim>\<open>===\<close> compares
  these numbers. The pairs of a hash are a Map from the text of the hash key to a
  \<^verbatim>\<open>HashPair\<close> of the original key and the value.
\<close>

datatype obj =
    IntegerObject nat number
  | BooleanObject nat bool
  | StringObject nat string
  | NullObject nat
  | ReturnValue nat "obj nullable"
  | ErrorObject nat string
  | FunctionObject nat "ident list" blockStatement environment
  | BuiltinObject nat builtinFunction
  | ArrayObject nat "obj nullable list"
  | HashObject nat "(string \<times> obj \<times> obj nullable) list"

type_synonym val = "obj nullable"

fun identity :: "obj \<Rightarrow> nat" where
  "identity (IntegerObject i _) = i"
| "identity (BooleanObject i _) = i"
| "identity (StringObject i _) = i"
| "identity (NullObject i) = i"
| "identity (ReturnValue i _) = i"
| "identity (ErrorObject i _) = i"
| "identity (FunctionObject i _ _ _) = i"
| "identity (BuiltinObject i _) = i"
| "identity (ArrayObject i _) = i"
| "identity (HashObject i _) = i"

text \<open>\<^verbatim>\<open>a === b\<close> on values: the same object, or the same empty value.\<close>

fun strict_equal :: "val \<Rightarrow> val \<Rightarrow> bool" where
  "strict_equal (Obj a) (Obj b) = (identity a = identity b)"
| "strict_equal Null Null = True"
| "strict_equal Undefined Undefined = True"
| "strict_equal _ _ = False"

text \<open>The \<^verbatim>\<open>type()\<close> method, with the strings of \<^verbatim>\<open>types.ts\<close>.\<close>

abbreviation NULL_OBJ :: string where "NULL_OBJ \<equiv> ''NULL''"
abbreviation ERROR_OBJ :: string where "ERROR_OBJ \<equiv> ''ERROR''"
abbreviation INTEGER_OBJ :: string where "INTEGER_OBJ \<equiv> ''INTEGER''"
abbreviation BOOLEAN_OBJ :: string where "BOOLEAN_OBJ \<equiv> ''BOOLEAN''"
abbreviation STRING_OBJ :: string where "STRING_OBJ \<equiv> ''STRING''"
abbreviation RETURN_VALUE_OBJ :: string where "RETURN_VALUE_OBJ \<equiv> ''RETURN_VALUE''"
abbreviation FUNCTION_OBJ :: string where "FUNCTION_OBJ \<equiv> ''FUNCTION''"
abbreviation BUILTIN_OBJ :: string where "BUILTIN_OBJ \<equiv> ''BUILTIN''"
abbreviation ARRAY_OBJ :: string where "ARRAY_OBJ \<equiv> ''ARRAY''"
abbreviation HASH_OBJ :: string where "HASH_OBJ \<equiv> ''HASH''"

fun obj_type :: "obj \<Rightarrow> string" where
  "obj_type (IntegerObject _ _) = INTEGER_OBJ"
| "obj_type (BooleanObject _ _) = BOOLEAN_OBJ"
| "obj_type (StringObject _ _) = STRING_OBJ"
| "obj_type (NullObject _) = NULL_OBJ"
| "obj_type (ReturnValue _ _) = RETURN_VALUE_OBJ"
| "obj_type (ErrorObject _ _) = ERROR_OBJ"
| "obj_type (FunctionObject _ _ _ _) = FUNCTION_OBJ"
| "obj_type (BuiltinObject _ _) = BUILTIN_OBJ"
| "obj_type (ArrayObject _ _) = ARRAY_OBJ"
| "obj_type (HashObject _ _) = HASH_OBJ"

text \<open>
  What a host computation yields: a result, the \<^verbatim>\<open>TypeError\<close> that a method call or
  an \<^verbatim>\<open>in\<close> test on \<^verbatim>\<open>null\<close> or \<^verbatim>\<open>undefined\<close> throws, or \<open>DepthExceeded\<close> when the
  bound on nested calls is reached (the host's call stack is finite).
\<close>

datatype 'a outcome = Ok 'a | TypeError | DepthExceeded

text \<open>\<^verbatim>\<open>v.type()\<close> on a value that may be empty.\<close>

fun val_type :: "val \<Rightarrow> string outcome" where
  "val_type (Obj ob) = Ok (obj_type ob)"
| "val_type _ = TypeError"

fun outcome_bind :: "'a outcome \<Rightarrow> ('a \<Rightarrow> 'b outcome) \<Rightarrow> 'b outcome" where
  "outcome_bind (Ok v) f = f v"
| "outcome_bind TypeError f = TypeError"
| "outcome_bind DepthExceeded f = DepthExceeded"

subsection \<open>Hash keys\<close>

datatype hashKey = HashKey (hashKey_type: string) (hashKey_value: number)

definition hashKey_toString :: "hashKey \<Rightarrow> string" where
  "hashKey_toString k = hashKey_type k @ '':'' @ number_toString (hashKey_value k)"

text \<open>
  The string hash: \<^verbatim>\<open>hash = ((hash << 5) - hash) + charCodeAt(i); hash = hash & hash\<close>.
  The bit operations work on 32-bit integers, so after every round \<open>hash\<close> is the
  32-bit wrap-around of the exact value. A string is a list of code units below 256.
\<close>

definition string_hash :: "string \<Rightarrow> 32 word" where
  "string_hash s = foldl (\<lambda>hash c. (push_bit 5 hash - hash) + of_nat (of_char c)) 0 s"

text \<open>The \<^verbatim>\<open>hashKey()\<close> method; \<open>None\<close> for the classes that have no such method.\<close>

fun obj_hashKey :: "obj \<Rightarrow> hashKey option" where
  "obj_hashKey (IntegerObject _ v) = Some (HashKey INTEGER_OBJ v)"
| "obj_hashKey (BooleanObject _ b) = Some (HashKey BOOLEAN_OBJ (Fin (if b then 1 else 0)))"
| "obj_hashKey (StringObject _ s) = Some (HashKey STRING_OBJ (Fin (abs (sint (string_hash s)))))"
| "obj_hashKey _ = None"

text \<open>\<^verbatim>\<open>isHashable\<close> tests \<^verbatim>\<open>'hashKey' in obj\<close>, which throws on an empty value.\<close>

fun isHashable :: "val \<Rightarrow> bool outcome" where
  "isHashable (Obj ob) = Ok (obj_hashKey ob \<noteq> None)"
| "isHashable _ = TypeError"

subsection \<open>The heap: environment stores and the next object identity\<close>

record heap =
  stores :: "(string \<times> val) list list"
  next_id :: nat

definition store_at :: "heap \<Rightarrow> nat \<Rightarrow> (string \<times> val) list" where
  "store_at h a = (if a < length (stores h) then stores h ! a else [])"

text \<open>
  \<^verbatim>\<open>Environment.get\<close>: a name whose stored value is \<^verbatim>\<open>undefined\<close> counts as missing in
  this store, as a name that is not stored at all does.
\<close>

fun env_get :: "heap \<Rightarrow> environment \<Rightarrow> string \<Rightarrow> val \<times> bool" where
  "env_get h (Environment a out) name =
     (let found = (case map_of (store_at h a) name of Some v \<Rightarrow> v | None \<Rightarrow> Undefined)
      in if found \<noteq> Undefined then (found, True)
         else (case out of Some e \<Rightarrow> env_get h e name | None \<Rightarrow> (Null, False)))"

text \<open>\<^verbatim>\<open>Environment.set\<close>: \<^verbatim>\<open>this.store.set(name, val)\<close>.\<close>

definition env_set :: "environment \<Rightarrow> string \<Rightarrow> val \<Rightarrow> heap \<Rightarrow> heap" where
  "env_set env name v h =
     h\<lparr>stores := (stores h)[store_addr env := AList.update name v (store_at h (store_addr env))]\<rparr>"

text \<open>\<^verbatim>\<open>new Environment(outer)\<close>: a new, empty store at the next address.\<close>

definition newEnvironment :: "environment option \<Rightarrow> heap \<Rightarrow> environment \<times> heap" where
  "newEnvironment out h = (Environment (length (stores h)) out, h\<lparr>stores := stores h @ [[]]\<rparr>)"

definition newEnclosedEnvironment :: "environment \<Rightarrow> heap \<Rightarrow> environment \<times> heap" where
  "newEnclosedEnvironment out h = newEnvironment (Some out) h"

text \<open>The identity that the next \<^verbatim>\<open>new\<close> object takes, and the heap after it is taken.\<close>

definition allocated :: "heap \<Rightarrow> heap" where
  "allocated h = h\<lparr>next_id := Suc (next_id h)\<rparr>"

section \<open>The evaluator\<close>

subsection \<open>The shared objects\<close>

text \<open>
  The three objects that \<^verbatim>\<open>evaluator.ts\<close> creates once, and the seven builtin objects that
  \<^verbatim>\<open>builtins.ts\<close> creates once: they hold the first ten identities.
\<close>

definition NULL :: obj where "NULL = NullObject 0"
definition TRUE :: obj where "TRUE = BooleanObject 1 True"
definition FALSE :: obj where "FALSE = BooleanObject 2 False"

definition builtins_get :: "string \<Rightarrow> obj option" where
  "builtins_get name = map_of
     [(''len'', BuiltinObject 3 builtin_len),
      (''first'', BuiltinObject 4 builtin_first),
      (''last'', BuiltinObject 5 builtin_last),
      (''rest'', BuiltinObject 6 builtin_rest),
      (''push'', BuiltinObject 7 builtin_push),
      (''puts'', BuiltinObject 8 builtin_puts),
      (''write'', BuiltinObject 9 builtin_write)] name"

definition initial_heap :: heap where
  "initial_heap = \<lparr>stores = [], next_id = 10\<rparr>"

subsection \<open>Builtin functions\<close>

text \<open>
  \<^verbatim>\<open>inspect()\<close> is called by \<^verbatim>\<open>puts\<close> and \<^verbatim>\<open>write\<close>; what reaches the console is outside
  the model, but the call throws when it meets an empty value inside a container or a
  return value, and \<open>inspect_returns\<close> says whether it returns.
\<close>

fun inspect_returns :: "obj \<Rightarrow> bool" where
  "inspect_returns (ReturnValue _ v) = (case v of Obj ob \<Rightarrow> inspect_returns ob | _ \<Rightarrow> False)"
| "inspect_returns (ArrayObject _ elements) =
     list_all (\<lambda>e. case e of Obj ob \<Rightarrow> inspect_returns ob | _ \<Rightarrow> False) elements"
| "inspect_returns (HashObject _ pairs) =
     list_all (\<lambda>pair. case pair of (_, key, v) \<Rightarrow>
        inspect_returns key \<and> (case v of Obj ob \<Rightarrow> inspect_returns ob | _ \<Rightarrow> False)) pairs"
| "inspect_returns _ = True"

text \<open>\<^verbatim>\<open>args[i]\<close>: \<^verbatim>\<open>undefined\<close> beyond the end of the array.\<close>

definition array_get :: "val list \<Rightarrow> nat \<Rightarrow> val" where
  "array_get xs i = (if i < length xs then xs ! i else Undefined)"

definition wrong_number_of_arguments :: "nat \<Rightarrow> nat \<Rightarrow> nat \<Rightarrow> obj" where
  "wrong_number_of_arguments i got want =
     ErrorObject i (''wrong number of arguments. got='' @ nat_toString got @ '', want='' @ nat_toString want)"

text \<open>
  \<open>builtin_call f i args\<close> is \<^verbatim>\<open>builtinObj.fn(...args)\<close>; \<open>i\<close> is the identity for the one
  object that the call may create.
\<close>

fun builtin_call :: "builtinFunction \<Rightarrow> nat \<Rightarrow> val list \<Rightarrow> val outcome" where
  "builtin_call builtin_len i args =
     (if length args \<noteq> 1 then Ok (Obj (wrong_number_of_arguments i (length args) 1))
      else (case array_get args 0 of
              Obj (StringObject _ s) \<Rightarrow> Ok (Obj (IntegerObject i (Fin (int (length s)))))
            | Obj (ArrayObject _ elements) \<Rightarrow> Ok (Obj (IntegerObject i (Fin (int (length elements)))))
            | arg \<Rightarrow> outcome_bind (val_type arg) (\<lambda>t.
                Ok (Obj (ErrorObject i (''argument to 'len' not supported, got '' @ t))))))"
| "builtin_call builtin_first i args =
     (if length args \<noteq> 1 then Ok (Obj (wrong_number_of_arguments i (length args) 1))
      else outcome_bind (val_type (array_get args 0)) (\<lambda>t.
        if t \<noteq> ARRAY_OBJ
        then Ok (Obj (ErrorObject i (''argument to 'first' must be ARRAY, got '' @ t)))
        else (case array_get args 0 of
                Obj (ArrayObject _ elements) \<Rightarrow>
                  if length elements > 0 then Ok (array_get elements 0) else Ok (Obj (NullObject i))
              | _ \<Rightarrow> TypeError)))"
| "builtin_call builtin_last i args =
     (if length args \<noteq> 1 then Ok (Obj (wrong_number_of_arguments i (length args) 1))
      else outcome_bind (val_type (array_get args 0)) (\<lambda>t.
        if t \<noteq> ARRAY_OBJ
        then Ok (Obj (ErrorObject i (''argument to 'last' must be ARRAY, got '' @ t)))
        else (case array_get args 0 of
                Obj (ArrayObject _ elements) \<Rightarrow>
                  if length elements > 0 then Ok (array_get elements (length elements - 1))
                  else Ok (Obj (NullObject i))
              | _ \<Rightarrow> TypeError)))"
| "builtin_call builtin_rest i args =
     (if length args \<noteq> 1 then Ok (Obj (wrong_number_of_arguments i (length args) 1))
      else outcome_bind (val_type (array_get args 0)) (\<lambda>t.
        if t \<noteq> ARRAY_OBJ
        then Ok (Obj (ErrorObject i (''argument to 'rest' must be ARRAY, got '' @ t)))
        else (case array_get args 0 of
                Obj (ArrayObject _ elements) \<Rightarrow>
                  if length elements > 0 then Ok (Obj (ArrayObject i (drop 1 elements)))
                  else Ok (Obj (NullObject i))
              | _ \<Rightarrow> TypeError)))"
| "builtin_call builtin_push i args =
     (if length args \<noteq> 2 then Ok (Obj (wrong_number_of_arguments i (length args) 2))
      else outcome_bind (val_type (array_get args 0)) (\<lambda>t.
        if t \<noteq> ARRAY_OBJ
        then Ok (Obj (ErrorObject i (''argument to 'push' must be ARRAY, got '' @ t)))
        else (case array_get args 0 of
                Obj (ArrayObject _ elements) \<Rightarrow> Ok (Obj (ArrayObject i (elements @ [array_get args 1])))
              | _ \<Rightarrow> TypeError)))"
| "builtin_call builtin_puts i args =
     (if list_all (\<lambda>arg. case arg of Obj ob \<Rightarrow> inspect_returns ob | _ \<Rightarrow> False) args
      then Ok (Obj (NullObject i)) else TypeError)"
| "builtin_call builtin_write i args =
     (if list_all (\<lambda>arg. case arg of Obj ob \<Rightarrow> inspect_returns ob | _ \<Rightarrow> False) args
      then Ok (Obj (NullObject i)) else TypeError)"

subsection \<open>Operators\<close>

text \<open>
  The functions of this subsection create at most one object each; the argument \<open>i\<close>
  is the identity that this object gets.
\<close>

definition nativeBoolToBooleanObject :: "bool \<Rightarrow> obj" where
  "nativeBoolToBooleanObject input = (if input then TRUE else FALSE)"

definition newError :: "nat \<Rightarrow> string \<Rightarrow> obj" where
  "newError i message = ErrorObject i message"

fun isError :: "val \<Rightarrow> bool outcome" where
  "isError Null = Ok False"
| "isError (Obj ob) = Ok (obj_type ob = ERROR_OBJ)"
| "isError Undefined = TypeError"

definition evalBangOperatorExpression :: "val \<Rightarrow> obj" where
  "evalBangOperatorExpression right =
     (if strict_equal right (Obj TRUE) then FALSE
      else if strict_equal right (Obj FALSE) then TRUE
      else if strict_equal right (Obj NULL) then TRUE
      else FALSE)"

text \<open>
  \<^verbatim>\<open>(x as IntegerObject).value\<close> and \<^verbatim>\<open>(x as StringObject).value\<close>. The casts are made
  after the class has been tested, so the last equations are never used.
\<close>

fun integer_value :: "val \<Rightarrow> number" where
  "integer_value (Obj (IntegerObject _ v)) = v"
| "integer_value _ = NaN"

fun string_value :: "val \<Rightarrow> string" where
  "string_value (Obj (StringObject _ s)) = s"
| "string_value _ = []"

definition evalMinusPrefixOperatorExpression :: "nat \<Rightarrow> val \<Rightarrow> obj outcome" where
  "evalMinusPrefixOperatorExpression i right =
     outcome_bind (val_type right) (\<lambda>t.
       if t \<noteq> INTEGER_OBJ then Ok (newError i (''unknown operator: -'' @ t))
       else Ok (IntegerObject i (num_neg (integer_value right))))"

definition evalPrefixExpression :: "nat \<Rightarrow> string \<Rightarrow> val \<Rightarrow> obj outcome" where
  "evalPrefixExpression i operator right =
     (if operator = ''!'' then Ok (evalBangOperatorExpression right)
      else if operator = ''-'' then evalMinusPrefixOperatorExpression i right
      else outcome_bind (val_type right) (\<lambda>t. Ok (newError i (''unknown operator: '' @ operator @ t))))"

definition evalIntegerInfixExpression :: "nat \<Rightarrow> string \<Rightarrow> val \<Rightarrow> val \<Rightarrow> obj outcome" where
  "evalIntegerInfixExpression i operator left right =
     (let leftVal = integer_value left;
          rightVal = integer_value right
      in if operator = ''+'' then Ok (IntegerObject i (num_add leftVal rightVal))
         else if operator = ''-'' then Ok (IntegerObject i (num_sub leftVal rightVal))
         else if operator = ''*'' then Ok (IntegerObject i (num_mul leftVal rightVal))
         else if operator = ''/'' then Ok (IntegerObject i (num_floor_div leftVal rightVal))
         else if operator = ''<'' then Ok (nativeBoolToBooleanObject (num_less leftVal rightVal))
         else if operator = ''>'' then Ok (nativeBoolToBooleanObject (num_less rightVal leftVal))
         else if operator = ''=='' then Ok (nativeBoolToBooleanObject (num_eq leftVal rightVal))
         else if operator = ''!='' then Ok (nativeBoolToBooleanObject (\<not> num_eq leftVal rightVal))
         else outcome_bind (val_type left) (\<lambda>lt. outcome_bind (val_type right) (\<lambda>rt.
                Ok (newError i (''unknown operator: '' @ lt @ '' '' @ operator @ '' '' @ rt)))))"

definition evalStringInfixExpression :: "nat \<Rightarrow> string \<Rightarrow> val \<Rightarrow> val \<Rightarrow> obj outcome" where
  "evalStringInfixExpression i operator left right =
     (if operator \<noteq> ''+''
      then outcome_bind (val_type left) (\<lambda>lt. outcome_bind (val_type right) (\<lambda>rt.
             Ok (newError i (''unknown operator: '' @ lt @ '' '' @ operator @ '' '' @ rt))))
      else Ok (StringObject i (string_value left @ string_value right)))"

text \<open>\<^verbatim>\<open>left.type() === t && right.type() === t\<close>, the right side read only if the left is \<open>t\<close>.\<close>

definition both_of_type :: "string \<Rightarrow> val \<Rightarrow> val \<Rightarrow> bool outcome" where
  "both_of_type t left right =
     outcome_bind (val_type left) (\<lambda>lt.
       if lt = t then outcome_bind (val_type right) (\<lambda>rt. Ok (rt = t)) else Ok False)"

definition evalInfixExpression :: "nat \<Rightarrow> string \<Rightarrow> val \<Rightarrow> val \<Rightarrow> obj outcome" where
  "evalInfixExpression i operator left right =
     outcome_bind (both_of_type INTEGER_OBJ left right) (\<lambda>integers.
       if integers then evalIntegerInfixExpression i operator left right
       else outcome_bind (both_of_type STRING_OBJ left right) (\<lambda>strings.
         if strings then evalStringInfixExpression i operator left right
         else if operator = ''=='' then Ok (nativeBoolToBooleanObject (strict_equal left right))
         else if operator = ''!='' then Ok (nativeBoolToBooleanObject (\<not> strict_equal left right))
         else outcome_bind (val_type left) (\<lambda>lt. outcome_bind (val_type right) (\<lambda>rt.
           if lt \<noteq> rt
           then Ok (newError i (''type mismatch: '' @ lt @ '' '' @ operator @ '' '' @ rt))
           else Ok (newError i (''unknown operator: '' @ lt @ '' '' @ operator @ '' '' @ rt))))))"

definition isTruthy :: "val \<Rightarrow> bool" where
  "isTruthy ob =
     (if strict_equal ob (Obj NULL) then False
      else if strict_equal ob (Obj TRUE) then True
      else if strict_equal ob (Obj FALSE) then False
      else True)"

definition evalIdentifier :: "nat \<Rightarrow> ident \<Rightarrow> environment \<Rightarrow> heap \<Rightarrow> val" where
  "evalIdentifier i node env h =
     (let (v, ok) = env_get h env (ident_value node)
      in if ok then v
         else (case builtins_get (ident_value node) of
                 Some builtin \<Rightarrow> Obj builtin
               | None \<Rightarrow> Obj (newError i (''identifier not found: '' @ ident_value node))))"

text \<open>
  \<^verbatim>\<open>extendFunctionEnv\<close>: a new environment enclosed by the function's own, and one
  \<^verbatim>\<open>env.set(func.parameters[i].value, args[i])\<close> per parameter, for \<open>i\<close> from \<open>0\<close>.
\<close>

fun extendFunctionEnv_loop :: "nat \<Rightarrow> ident list \<Rightarrow> val list \<Rightarrow> environment \<Rightarrow> heap \<Rightarrow> heap" where
  "extendFunctionEnv_loop i [] args env h = h"
| "extendFunctionEnv_loop i (parameter # parameters) args env h =
     extendFunctionEnv_loop (Suc i) parameters args env
       (env_set env (ident_value parameter) (array_get args i) h)"

definition extendFunctionEnv :: "ident list \<Rightarrow> environment \<Rightarrow> val list \<Rightarrow> heap \<Rightarrow> environment \<times> heap" where
  "extendFunctionEnv func_parameters func_env args h =
     (let (env, h1) = newEnclosedEnvironment func_env h
      in (env, extendFunctionEnv_loop 0 func_parameters args env h1))"

text \<open>\<^verbatim>\<open>(x as ReturnValue).value\<close>, read after the class has been tested.\<close>

fun returnValue_value :: "obj \<Rightarrow> val" where
  "returnValue_value (ReturnValue _ v) = v"
| "returnValue_value _ = Undefined"

definition unwrapReturnValue :: "val \<Rightarrow> val" where
  "unwrapReturnValue objValue =
     (case objValue of
        Obj ob \<Rightarrow> if obj_type ob = RETURN_VALUE_OBJ then returnValue_value ob else objValue
      | _ \<Rightarrow> Obj NULL)"

definition evalArrayIndexExpression :: "val \<Rightarrow> val \<Rightarrow> val" where
  "evalArrayIndexExpression array index =
     (case array of
        Obj (ArrayObject _ elements) \<Rightarrow>
          (let idx = integer_value index;
               max = Fin (int (length elements) - 1)
           in if num_less idx (Fin 0) \<or> num_less max idx then Obj NULL
              else (case idx of Fin k \<Rightarrow> array_get elements (nat k) | _ \<Rightarrow> Undefined))
      | _ \<Rightarrow> Undefined)"

text \<open>\<^verbatim>\<open>index.hashKey()\<close>; calling a method that the object lacks throws.\<close>

fun val_hashKey :: "val \<Rightarrow> hashKey outcome" where
  "val_hashKey (Obj ob) = (case obj_hashKey ob of Some k \<Rightarrow> Ok k | None \<Rightarrow> TypeError)"
| "val_hashKey _ = TypeError"

text \<open>\<^verbatim>\<open>(hash as HashObject).pairs\<close>.\<close>

fun hash_pairs :: "val \<Rightarrow> (string \<times> obj \<times> val) list outcome" where
  "hash_pairs (Obj (HashObject _ pairs)) = Ok pairs"
| "hash_pairs _ = TypeError"

definition evalHashIndexExpression :: "nat \<Rightarrow> val \<Rightarrow> val \<Rightarrow> val outcome" where
  "evalHashIndexExpression i hash index =
     outcome_bind (isHashable index) (\<lambda>hashable.
       if \<not> hashable
       then outcome_bind (val_type index) (\<lambda>t. Ok (Obj (newError i (''unusable as hash key: '' @ t))))
       else outcome_bind (val_hashKey index) (\<lambda>hashed.
              outcome_bind (hash_pairs hash) (\<lambda>pairs.
                case map_of pairs (hashKey_toString hashed) of
                  None \<Rightarrow> Ok (Obj NULL)
                | Some (_, v) \<Rightarrow> Ok v)))"

text \<open>\<^verbatim>\<open>left.type() === ARRAY_OBJ && index.type() === INTEGER_OBJ\<close>.\<close>

definition both_array_integer :: "val \<Rightarrow> val \<Rightarrow> bool outcome" where
  "both_array_integer left index =
     outcome_bind (val_type left) (\<lambda>lt.
       if lt = ARRAY_OBJ then outcome_bind (val_type index) (\<lambda>it. Ok (it = INTEGER_OBJ)) else Ok False)"

definition evalIndexExpression :: "nat \<Rightarrow> val \<Rightarrow> val \<Rightarrow> val outcome" where
  "evalIndexExpression i left index =
     outcome_bind (both_array_integer left index) (\<lambda>array_index.
       if array_index then Ok (evalArrayIndexExpression left index)
       else outcome_bind (val_type left) (\<lambda>lt.
         if lt = HASH_OBJ then evalHashIndexExpression i left index
         else Ok (Obj (newError i (''index operator not supported: '' @ lt)))))"

subsection \<open>The tree walk\<close>

text \<open>
  A computation that may change the heap yields an outcome and the heap it leaves.
  \<open>andThen\<close> runs the rest of a function body after a call that returned.
\<close>

fun andThen :: "'a outcome \<times> heap \<Rightarrow> ('a \<Rightarrow> heap \<Rightarrow> 'b outcome \<times> heap) \<Rightarrow> 'b outcome \<times> heap" where
  "andThen (Ok v, h) f = f v h"
| "andThen (TypeError, h) f = (TypeError, h)"
| "andThen (DepthExceeded, h) f = (DepthExceeded, h)"

text \<open>What \<^verbatim>\<open>evalNode\<close> is called on: \<^verbatim>\<open>null\<close>, the program, a statement or an expression.\<close>

datatype node = NullNode | ProgramNode program | StatementNode statement | ExpressionNode expression

text \<open>\<^verbatim>\<open>args.length === 1 && isError(args[0])\<close>.\<close>

definition single_error :: "val list \<Rightarrow> bool outcome" where
  "single_error args = (if length args = 1 then isError (array_get args 0) else Ok False)"

text \<open>
  The first argument of each function bounds the depth of nested calls; a \<^verbatim>\<open>for\<close> loop
  over a list of nodes runs at the depth of its function. The identity \<open>next_id h\<close> is
  passed to whatever may create an object, and is then counted as used.
\<close>

function evalNode :: "nat \<Rightarrow> node \<Rightarrow> environment \<Rightarrow> heap \<Rightarrow> val outcome \<times> heap"
and evalProgram :: "nat \<Rightarrow> program \<Rightarrow> environment \<Rightarrow> heap \<Rightarrow> val outcome \<times> heap"
and evalProgram_loop :: "nat \<Rightarrow> val \<Rightarrow> statement list \<Rightarrow> environment \<Rightarrow> heap \<Rightarrow> val outcome \<times> heap"
and evalBlockStatement :: "nat \<Rightarrow> blockStatement \<Rightarrow> environment \<Rightarrow> heap \<Rightarrow> val outcome \<times> heap"
and evalBlockStatement_loop :: "nat \<Rightarrow> val \<Rightarrow> statement list \<Rightarrow> environment \<Rightarrow> heap \<Rightarrow> val outcome \<times> heap"
and evalIfExpression :: "nat \<Rightarrow> expression \<Rightarrow> blockStatement \<Rightarrow> blockStatement option
      \<Rightarrow> environment \<Rightarrow> heap \<Rightarrow> val outcome \<times> heap"
and evalExpressions :: "nat \<Rightarrow> expression list \<Rightarrow> environment \<Rightarrow> heap \<Rightarrow> val list outcome \<times> heap"
and evalExpressions_loop :: "nat \<Rightarrow> val list \<Rightarrow> expression list \<Rightarrow> environment \<Rightarrow> heap
      \<Rightarrow> val list outcome \<times> heap"
and applyFunction :: "nat \<Rightarrow> val \<Rightarrow> val list \<Rightarrow> heap \<Rightarrow> val outcome \<times> heap"
and evalHashLiteral :: "nat \<Rightarrow> (expression \<times> expression) list \<Rightarrow> environment \<Rightarrow> heap \<Rightarrow> val outcome \<times> heap"
and evalHashLiteral_loop :: "nat \<Rightarrow> nat \<Rightarrow> (string \<times> obj \<times> val) list \<Rightarrow> (expression \<times> expression) list
      \<Rightarrow> environment \<Rightarrow> heap \<Rightarrow> val outcome \<times> heap"
where
  "evalNode 0 node env h = (DepthExceeded, h)"
| "evalNode (Suc n) NullNode env h = (Ok Null, h)"
| "evalNode (Suc n) (ProgramNode program) env h = evalProgram n program env h"
| "evalNode (Suc n) (StatementNode (ExpressionStatement tok expr)) env h =
     evalNode n (ExpressionNode expr) env h"
| "evalNode (Suc n) (StatementNode (BlockStmt block)) env h = evalBlockStatement n block env h"
| "evalNode (Suc n) (StatementNode (ReturnStatement tok returnValue)) env h =
     andThen (evalNode n (ExpressionNode returnValue) env h) (\<lambda>v h.
     andThen (isError v, h) (\<lambda>err h.
       if err then (Ok v, h)
       else (Ok (Obj (ReturnValue (next_id h) v)), allocated h)))"
| "evalNode (Suc n) (StatementNode (LetStatement tok name expr)) env h =
     andThen (evalNode n (ExpressionNode expr) env h) (\<lambda>v h.
     andThen (isError v, h) (\<lambda>err h.
       if err then (Ok v, h)
       else (Ok v, env_set env (ident_value name) v h)))"
| "evalNode (Suc n) (ExpressionNode (IntegerLiteral tok v)) env h =
     (Ok (Obj (IntegerObject (next_id h) v)), allocated h)"
| "evalNode (Suc n) (ExpressionNode (StringLiteral tok v)) env h =
     (Ok (Obj (StringObject (next_id h) v)), allocated h)"
| "evalNode (Suc n) (ExpressionNode (BooleanLiteral tok v)) env h =
     (Ok (Obj (nativeBoolToBooleanObject v)), h)"
| "evalNode (Suc n) (ExpressionNode (PrefixExpression tok operator right)) env h =
     andThen (evalNode n (ExpressionNode right) env h) (\<lambda>right h.
     andThen (isError right, h) (\<lambda>err h.
       if err then (Ok right, h)
       else andThen (evalPrefixExpression (next_id h) operator right, allocated h) (\<lambda>ob h.
              (Ok (Obj ob), h))))"
| "evalNode (Suc n) (ExpressionNode (InfixExpression tok left operator right)) env h =
     andThen (evalNode n (ExpressionNode left) env h) (\<lambda>left h.
     andThen (isError left, h) (\<lambda>err h.
       if err then (Ok left, h)
       else
     andThen (evalNode n (ExpressionNode right) env h) (\<lambda>right h.
     andThen (isError right, h) (\<lambda>err h.
       if err then (Ok right, h)
       else andThen (evalInfixExpression (next_id h) operator left right, allocated h) (\<lambda>ob h.
              (Ok (Obj ob), h))))))"
| "evalNode (Suc n) (ExpressionNode (IfExpression tok condition consequence alternative)) env h =
     evalIfExpression n condition consequence alternative env h"
| "evalNode (Suc n) (ExpressionNode (IdentifierExpr ident)) env h =
     (Ok (evalIdentifier (next_id h) ident env h), allocated h)"
| "evalNode (Suc n) (ExpressionNode (FunctionLiteral tok parameters body)) env h =
     (Ok (Obj (FunctionObject (next_id h) parameters body env)), allocated h)"
| "evalNode (Suc n) (ExpressionNode (CallExpression tok func args)) env h =
     andThen (evalNode n (ExpressionNode func) env h) (\<lambda>func h.
     andThen (isError func, h) (\<lambda>err h.
       if err then (Ok func, h)
       else
     andThen (evalExpressions n args env h) (\<lambda>args h.
     andThen (single_error args, h) (\<lambda>err h.
       if err then (Ok (array_get args 0), h)
       else applyFunction n func args h))))"
| "evalNode (Suc n) (ExpressionNode (ArrayLiteral tok elements)) env h =
     andThen (evalExpressions n elements env h) (\<lambda>elements h.
     andThen (single_error elements, h) (\<lambda>err h.
       if err then (Ok (array_get elements 0), h)
       else (Ok (Obj (ArrayObject (next_id h) elements)), allocated h)))"
| "evalNode (Suc n) (ExpressionNode (IndexExpression tok left index)) env h =
     andThen (evalNode n (ExpressionNode left) env h) (\<lambda>left h.
     andThen (isError left, h) (\<lambda>err h.
       if err then (Ok left, h)
       else
     andThen (evalNode n (ExpressionNode index) env h) (\<lambda>index h.
     andThen (isError index, h) (\<lambda>err h.
       if err then (Ok index, h)
       else (evalIndexExpression (next_id h) left index, allocated h)))))"
| "evalNode (Suc n) (ExpressionNode (HashLiteral tok pairs)) env h = evalHashLiteral n pairs env h"

| "evalProgram 0 program env h = (DepthExceeded, h)"
| "evalProgram (Suc n) program env h = evalProgram_loop n Null (statements program) env h"

| "evalProgram_loop 0 result stmts env h = (DepthExceeded, h)"
| "evalProgram_loop (Suc n) result [] env h = (Ok result, h)"
| "evalProgram_loop (Suc n) result (statement # rest) env h =
     andThen (evalNode n (StatementNode statement) env h) (\<lambda>result h.
       case result of
         Obj ob \<Rightarrow>
           if obj_type ob = RETURN_VALUE_OBJ then (Ok (returnValue_value ob), h)
           else if obj_type ob = ERROR_OBJ then (Ok result, h)
           else evalProgram_loop (Suc n) result rest env h
       | _ \<Rightarrow> evalProgram_loop (Suc n) result rest env h)"

| "evalBlockStatement 0 block env h = (DepthExceeded, h)"
| "evalBlockStatement (Suc n) block env h =
     evalBlockStatement_loop n Null (block_statements block) env h"

| "evalBlockStatement_loop 0 result stmts env h = (DepthExceeded, h)"
| "evalBlockStatement_loop (Suc n) result [] env h = (Ok result, h)"
| "evalBlockStatement_loop (Suc n) result (statement # rest) env h =
     andThen (evalNode n (StatementNode statement) env h) (\<lambda>result h.
       if result \<noteq> Null
       then andThen (val_type result, h) (\<lambda>rt h.
              if rt = RETURN_VALUE_OBJ \<or> rt = ERROR_OBJ then (Ok result, h)
              else evalBlockStatement_loop (Suc n) result rest env h)
       else evalBlockStatement_loop (Suc n) result rest env h)"

| "evalIfExpression 0 condition consequence alternative env h = (DepthExceeded, h)"
| "evalIfExpression (Suc n) condition consequence alternative env h =
     andThen (evalNode n (ExpressionNode condition) env h) (\<lambda>condition h.
     andThen (isError condition, h) (\<lambda>err h.
       if err then (Ok condition, h)
       else if isTruthy condition then evalNode n (StatementNode (BlockStmt consequence)) env h
       else (case alternative of
               Some alt \<Rightarrow> evalNode n (StatementNode (BlockStmt alt)) env h
             | None \<Rightarrow> (Ok (Obj NULL), h))))"

| "evalExpressions 0 exps env h = (DepthExceeded, h)"
| "evalExpressions (Suc n) exps env h = evalExpressions_loop n [] exps env h"

| "evalExpressions_loop 0 result exps env h = (DepthExceeded, h)"
| "evalExpressions_loop (Suc n) result [] env h = (Ok result, h)"
| "evalExpressions_loop (Suc n) result (e # rest) env h =
     andThen (evalNode n (ExpressionNode e) env h) (\<lambda>evaluated h.
     andThen (isError evaluated, h) (\<lambda>err h.
       if err then (Ok [evaluated], h)
       else evalExpressions_loop (Suc n) (result @ [evaluated]) rest env h))"

| "applyFunction 0 func args h = (DepthExceeded, h)"
| "applyFunction (Suc n) func args h =
     andThen (val_type func, h) (\<lambda>t h.
       if t = FUNCTION_OBJ
       then (case func of
               Obj (FunctionObject _ parameters body fenv) \<Rightarrow>
                 (let (extendedEnv, h1) = extendFunctionEnv parameters fenv args h
                  in andThen (evalNode n (StatementNode (BlockStmt body)) extendedEnv h1) (\<lambda>evaluated h.
                       (Ok (unwrapReturnValue evaluated), h)))
             | _ \<Rightarrow> (TypeError, h))
       else if t = BUILTIN_OBJ
       then (case func of
               Obj (BuiltinObject _ fn) \<Rightarrow> (builtin_call fn (next_id h) args, allocated h)
             | _ \<Rightarrow> (TypeError, h))
       else (Ok (Obj (newError (next_id h) (''not a function: '' @ t))), allocated h))"

| "evalHashLiteral 0 pairs env h = (DepthExceeded, h)"
| "evalHashLiteral (Suc n) pairs env h = evalHashLiteral_loop n (next_id h) [] pairs env (allocated h)"

| "evalHashLiteral_loop 0 i entries pairs env h = (DepthExceeded, h)"
| "evalHashLiteral_loop (Suc n) i entries [] env h = (Ok (Obj (HashObject i entries)), h)"
| "evalHashLiteral_loop (Suc n) i entries ((keyNode, valueNode) # rest) env h =
     andThen (evalNode n (ExpressionNode keyNode) env h) (\<lambda>key h.
     andThen (isError key, h) (\<lambda>err h.
       if err then (Ok key, h)
       else
     andThen (isHashable key, h) (\<lambda>hashable h.
       if \<not> hashable
       then andThen (val_type key, h) (\<lambda>t h.
              (Ok (Obj (newError (next_id h) (''unusable as hash key: '' @ t))), allocated h))
       else
     andThen (evalNode n (ExpressionNode valueNode) env h) (\<lambda>v h.
     andThen (isError v, h) (\<lambda>err h.
       if err then (Ok v, h)
       else
     andThen (val_hashKey key, h) (\<lambda>hashed h.
       case key of
         Obj keyObject \<Rightarrow>
           evalHashLiteral_loop (Suc n) i
             (AList.update (hashKey_toString hashed) (keyObject, v) entries) rest env h
       | _ \<Rightarrow> (TypeError, h)))))))"
  by pat_completeness auto

text \<open>
  Termination: a call passes a smaller depth bound, and a loop calls itself at the same
  bound on the rest of its list.
\<close>

termination
  apply (relation "inv_image (less_than <*lex*> less_than)
        (case_sum
          (case_sum
            (case_sum (\<lambda>(n, node, env, h). (n, 0))
                      (\<lambda>(n, program, env, h). (n, 0)))
            (case_sum (\<lambda>(n, result, stmts, env, h). (n, length stmts))
              (case_sum (\<lambda>(n, block, env, h). (n, 0))
                        (\<lambda>(n, result, stmts, env, h). (n, length stmts)))))
          (case_sum
            (case_sum (\<lambda>(n, condition, consequence, alternative, env, h). (n, 0))
              (case_sum (\<lambda>(n, exps, env, h). (n, 0))
                        (\<lambda>(n, result, exps, env, h). (n, length exps))))
            (case_sum (\<lambda>(n, func, args, h). (n, 0))
              (case_sum (\<lambda>(n, pairs, env, h). (n, 0))
                        (\<lambda>(n, i, entries, pairs, env, h). (n, length pairs))))))")
    apply (intro wf_inv_image wf_lex_prod wf_less_than)
   apply simp_all
  done

section \<open>Running a program\<close>

text \<open>
  The test helper \<^verbatim>\<open>testEval\<close>: parse the input, then evaluate the program in a new
  environment. The input is the token sequence that the lexer delivers for the source
  text; parse errors are not looked at.
\<close>

definition testEval :: "nat \<Rightarrow> token list \<Rightarrow> (val outcome \<times> heap) option" where
  "testEval n input =
     do {
       (program, p) \<leftarrow> parseProgram n (newParser input);
       let (env, h) = newEnvironment None initial_heap;
       Some (evalNode n (ProgramNode program) env h)
     }"

text \<open>The value that a run yields, when the depth bound sufficed for the parser.\<close>

definition testEval_value :: "nat \<Rightarrow> token list \<Rightarrow> val outcome option" where
  "testEval_value n input = map_option fst (testEval n input)"

text \<open>Tokens as the lexer builds them: the literal of a symbol is the symbol itself.\<close>

definition symbol :: "tokenType \<Rightarrow> token" where
  "symbol t = Token t (tokenType_text t)"

definition name_token :: "string \<Rightarrow> token" where
  "name_token name = Token token_IDENT name"

definition int_token :: "string \<Rightarrow> token" where
  "int_token digits = Token token_INT digits"


definition LET_token :: token where "LET_token = Token token_LET ''let''"
definition FUNCTION_token :: token where "FUNCTION_token = Token token_FUNCTION ''fn''"
definition TRUE_token :: token where "TRUE_token = Token token_TRUE ''true''"
definition FALSE_token :: token where "FALSE_token = Token token_FALSE ''false''"
definition IF_token :: token where "IF_token = Token token_IF ''if''"
definition ELSE_token :: token where "ELSE_token = Token token_ELSE ''else''"
definition RETURN_token :: token where "RETURN_token = Token token_RETURN ''return''"

subsection \<open>Example programs\<close>

text \<open>\<^verbatim>\<open>let newAdder = fn(x) { fn(y) { x + y } }; let addTwo = newAdder(2); addTwo(3)\<close>\<close>

definition closure_program :: "token list" where
  "closure_program =
     [LET_token, name_token ''newAdder'', symbol token_ASSIGN,
      FUNCTION_token, symbol token_LPAREN, name_token ''x'', symbol token_RPAREN, symbol token_LBRACE,
      FUNCTION_token, symbol token_LPAREN, name_token ''y'', symbol token_RPAREN, symbol token_LBRACE,
      name_token ''x'', symbol token_PLUS, name_token ''y'', symbol token_RBRACE,
      symbol token_RBRACE, symbol token_SEMICOLON,
      LET_token, name_token ''addTwo'', symbol token_ASSIGN,
      name_token ''newAdder'', symbol token_LPAREN, int_token ''2'', symbol token_RPAREN, symbol token_SEMICOLON,
      name_token ''addTwo'', symbol token_LPAREN, int_token ''3'', symbol token_RPAREN]"

text \<open>\<^verbatim>\<open>let x = 1; let f = fn() { x }; let g = fn(x) { f() }; g(2)\<close>\<close>

definition lexical_scope_program :: "token list" where
  "lexical_scope_program =
     [LET_token, name_token ''x'', symbol token_ASSIGN, int_token ''1'', symbol token_SEMICOLON,
      LET_token, name_token ''f'', symbol token_ASSIGN,
      FUNCTION_token, symbol token_LPAREN, symbol token_RPAREN, symbol token_LBRACE,
      name_token ''x'', symbol token_RBRACE, symbol token_SEMICOLON,
      LET_token, name_token ''g'', symbol token_ASSIGN,
      FUNCTION_token, symbol token_LPAREN, name_token ''x'', symbol token_RPAREN, symbol token_LBRACE,
      name_token ''f'', symbol token_LPAREN, symbol token_RPAREN, symbol token_RBRACE, symbol token_SEMICOLON,
      name_token ''g'', symbol token_LPAREN, int_token ''2'', symbol token_RPAREN]"

text \<open>\<^verbatim>\<open>let f = fn() { y }; let y = 7; f()\<close>\<close>

definition later_binding_program :: "token list" where
  "later_binding_program =
     [LET_token, name_token ''f'', symbol token_ASSIGN,
      FUNCTION_token, symbol token_LPAREN, symbol token_RPAREN, symbol token_LBRACE,
      name_token ''y'', symbol token_RBRACE, symbol token_SEMICOLON,
      LET_token, name_token ''y'', symbol token_ASSIGN, int_token ''7'', symbol token_SEMICOLON,
      name_token ''f'', symbol token_LPAREN, symbol token_RPAREN]"

text \<open>\<^verbatim>\<open>let x = 10; let f = fn() { let x = 20; x }; [f(), x]\<close>\<close>

definition shadowing_program :: "token list" where
  "shadowing_program =
     [LET_token, name_token ''x'', symbol token_ASSIGN, int_token ''10'', symbol token_SEMICOLON,
      LET_token, name_token ''f'', symbol token_ASSIGN,
      FUNCTION_token, symbol token_LPAREN, symbol token_RPAREN, symbol token_LBRACE,
      LET_token, name_token ''x'', symbol token_ASSIGN, int_token ''20'', symbol token_SEMICOLON,
      name_token ''x'', symbol token_RBRACE, symbol token_SEMICOLON,
      symbol token_LBRACKET, name_token ''f'', symbol token_LPAREN, symbol token_RPAREN, symbol token_COMMA,
      name_token ''x'', symbol token_RBRACKET]"




text \<open>\<^verbatim>\<open>let f = fn() { if (true) { return 1; } 2 }; f()\<close>\<close>

definition nested_return_program :: "token list" where
  "nested_return_program =
     [LET_token, name_token ''f'', symbol token_ASSIGN,
      FUNCTION_token, symbol token_LPAREN, symbol token_RPAREN, symbol token_LBRACE,
      IF_token, symbol token_LPAREN, TRUE_token, symbol token_RPAREN, symbol token_LBRACE,
      RETURN_token, int_token ''1'', symbol token_SEMICOLON, symbol token_RBRACE,
      int_token ''2'', symbol token_RBRACE, symbol token_SEMICOLON,
      name_token ''f'', symbol token_LPAREN, symbol token_RPAREN]"

text \<open>\<^verbatim>\<open>if (10 > 1) { if (10 > 1) { return 10; } return 1; }\<close>\<close>

definition nested_if_return_program :: "token list" where
  "nested_if_return_program =
     [IF_token, symbol token_LPAREN, int_token ''10'', symbol token_GT, int_token ''1'', symbol token_RPAREN,
      symbol token_LBRACE,
      IF_token, symbol token_LPAREN, int_token ''10'', symbol token_GT, int_token ''1'', symbol token_RPAREN,
      symbol token_LBRACE, RETURN_token, int_token ''10'', symbol token_SEMICOLON, symbol token_RBRACE,
      RETURN_token, int_token ''1'', symbol token_SEMICOLON, symbol token_RBRACE]"

text \<open>\<^verbatim>\<open>9; return 2 * 5; 9;\<close>\<close>

definition early_return_program :: "token list" where
  "early_return_program =
     [int_token ''9'', symbol token_SEMICOLON,
      RETURN_token, int_token ''2'', symbol token_ASTERISK, int_token ''5'', symbol token_SEMICOLON,
      int_token ''9'', symbol token_SEMICOLON]"

section \<open>Notions that the properties are stated with\<close>



text \<open>The addresses of the stores along the chain of an environment, innermost first.\<close>

fun env_addrs :: "environment \<Rightarrow> nat list" where
  "env_addrs (Environment a out) = a # (case out of Some e \<Rightarrow> env_addrs e | None \<Rightarrow> [])"

text \<open>An environment of a heap: all the stores of its chain exist in the heap.\<close>

definition env_within :: "heap \<Rightarrow> environment \<Rightarrow> bool" where
  "env_within h env = list_all (\<lambda>a. a < length (stores h)) (env_addrs env)"

text \<open>
  \<open>stores_kept h h'\<close>: every store that exists in \<open>h\<close> is the same in \<open>h'\<close>, which may have
  further stores. \<open>stores_kept_except e h h'\<close> allows the store at address \<open>e\<close> to differ.
\<close>

definition stores_kept :: "heap \<Rightarrow> heap \<Rightarrow> bool" where
  "stores_kept h h' \<longleftrightarrow>
     length (stores h) \<le> length (stores h') \<and> (\<forall>a < length (stores h). stores h' ! a = stores h ! a)"

definition stores_kept_except :: "nat \<Rightarrow> heap \<Rightarrow> heap \<Rightarrow> bool" where
  "stores_kept_except e h h' \<longleftrightarrow>
     length (stores h) \<le> length (stores h')
     \<and> (\<forall>a < length (stores h). a \<noteq> e \<longrightarrow> stores h' ! a = stores h ! a)"

text \<open>
  A statement result after which the loop of \<^verbatim>\<open>evalProgram\<close> goes on to the next
  statement: anything but a ReturnValue or an Error object. The loop of
  \<^verbatim>\<open>evalBlockStatement\<close> goes on for the same results, except that it throws on
  \<^verbatim>\<open>undefined\<close>.
\<close>

fun program_continues :: "val \<Rightarrow> bool" where
  "program_continues (Obj ob) = (obj_type ob \<noteq> RETURN_VALUE_OBJ \<and> obj_type ob \<noteq> ERROR_OBJ)"
| "program_continues _ = True"

fun block_continues :: "val \<Rightarrow> bool" where
  "block_continues (Obj ob) = (obj_type ob \<noteq> RETURN_VALUE_OBJ \<and> obj_type ob \<noteq> ERROR_OBJ)"
| "block_continues Null = True"
| "block_continues Undefined = False"

text \<open>
  \<open>passes continues n stmts env result h\<close>: the statements are evaluated one after the
  other, each in the heap that the one before left, and every result lets the loop go
  on; the value is the last result and the last heap (the given ones for no statement).
\<close>

fun passes :: "(val \<Rightarrow> bool) \<Rightarrow> nat \<Rightarrow> statement list \<Rightarrow> environment \<Rightarrow> val \<Rightarrow> heap
    \<Rightarrow> (val \<times> heap) option" where
  "passes continues n [] env result h = Some (result, h)"
| "passes continues n (st # rest) env result h =
     (case evalNode n (StatementNode st) env h of
        (Ok v, h1) \<Rightarrow> if continues v then passes continues n rest env v h1 else None
      | _ \<Rightarrow> None)"

subsection \<open>Example heaps and functions\<close>

text \<open>The heap after \<^verbatim>\<open>let x = 10;\<close> in a new environment, and that environment.\<close>

definition global_environment :: environment where
  "global_environment = Environment 0 None"

definition global_heap :: heap where
  "global_heap = \<lparr>stores = [[(''x'', Obj (IntegerObject 10 (Fin 10)))]], next_id = 12\<rparr>"

definition x_identifier :: ident where
  "x_identifier = Identifier (name_token ''x'') ''x''"

text \<open>The object of \<^verbatim>\<open>fn() { let x = 20; x }\<close> created in the global environment.\<close>

definition shadowing_function :: obj where
  "shadowing_function =
     FunctionObject 11 []
       (BlockStatement (symbol token_LBRACE)
          [LetStatement LET_token x_identifier (IntegerLiteral (int_token ''20'') (Fin 20)),
           ExpressionStatement (name_token ''x'') (IdentifierExpr x_identifier)])
       global_environment"

text \<open>The statements \<^verbatim>\<open>9;\<close> and \<^verbatim>\<open>return 10;\<close> as the parser builds them.\<close>

definition nine_statement :: statement where
  "nine_statement = ExpressionStatement (int_token ''9'') (IntegerLiteral (int_token ''9'') (Fin 9))"

definition return_ten_statement :: statement where
  "return_ten_statement = ReturnStatement RETURN_token (IntegerLiteral (int_token ''10'') (Fin 10))"

subsection \<open>The grammar of infix expressions\<close>

text \<open>
  The eight binary operators, each with its token kind and its rank: equality below
  comparison below sum below product.
\<close>

datatype binary_operator =
  op_PLUS | op_MINUS | op_ASTERISK | op_SLASH | op_LT | op_GT | op_EQ | op_NOT_EQ

fun operator_type :: "binary_operator \<Rightarrow> tokenType" where
  "operator_type op_PLUS = token_PLUS"
| "operator_type op_MINUS = token_MINUS"
| "operator_type op_ASTERISK = token_ASTERISK"
| "operator_type op_SLASH = token_SLASH"
| "operator_type op_LT = token_LT"
| "operator_type op_GT = token_GT"
| "operator_type op_EQ = token_EQ"
| "operator_type op_NOT_EQ = token_NOT_EQ"

fun operator_rank :: "binary_operator \<Rightarrow> nat" where
  "operator_rank op_EQ = 2"
| "operator_rank op_NOT_EQ = 2"
| "operator_rank op_LT = 3"
| "operator_rank op_GT = 3"
| "operator_rank op_PLUS = 4"
| "operator_rank op_MINUS = 4"
| "operator_rank op_ASTERISK = 5"
| "operator_rank op_SLASH = 5"

text \<open>
  A written expression: a name, an integer literal, two expressions joined by a binary
  operator, or an expression in parentheses. Its tokens are what the lexer delivers
  for the text.
\<close>

datatype written =
    Name string
  | Numeral string
  | Binary written binary_operator written
  | Parenthesised written

fun tokens_of :: "written \<Rightarrow> token list" where
  "tokens_of (Name x) = [name_token x]"
| "tokens_of (Numeral d) = [int_token d]"
| "tokens_of (Binary l operator r) = tokens_of l @ symbol (operator_type operator) # tokens_of r"
| "tokens_of (Parenthesised e) = symbol token_LPAREN # tokens_of e @ [symbol token_RPAREN]"

text \<open>
  The rank at which an expression stands: that of its operator if it is a binary
  expression without parentheses around it, and above every operator otherwise.
\<close>

fun rank :: "written \<Rightarrow> nat" where
  "rank (Binary l operator r) = operator_rank operator"
| "rank _ = 9"

text \<open>
  An expression is written according to precedence and left association when every
  binary expression has a left operand of at least the operator's rank and a right
  operand of higher rank (anything else must be in parentheses), and every integer
  literal is a non-empty run of digits: then it can be read in one way only.
\<close>

fun well_written :: "written \<Rightarrow> bool" where
  "well_written (Name x) = True"
| "well_written (Numeral d) = (d \<noteq> [] \<and> list_all isDigit d)"
| "well_written (Binary l operator r) =
     (well_written l \<and> well_written r \<and> operator_rank operator \<le> rank l \<and> operator_rank operator < rank r)"
| "well_written (Parenthesised e) = well_written e"

text \<open>The tree that the reading denotes: the operands of each operator are its two sides.\<close>

fun tree_of :: "written \<Rightarrow> expression" where
  "tree_of (Name x) = IdentifierExpr (Identifier (name_token x) x)"
| "tree_of (Numeral d) = IntegerLiteral (int_token d) (Fin (digits_value d))"
| "tree_of (Binary l operator r) =
     InfixExpression (symbol (operator_type operator)) (tree_of l)
       (tokenType_text (operator_type operator)) (tree_of r)"
| "tree_of (Parenthesised e) = tree_of e"

fun written_size :: "written \<Rightarrow> nat" where
  "written_size (Name x) = 1"
| "written_size (Numeral d) = 1"
| "written_size (Binary l operator r) = Suc (written_size l + written_size r)"
| "written_size (Parenthesised e) = Suc (written_size e)"

text \<open>The number of rounds that the loop of \<^verbatim>\<open>parseExpression\<close> makes at the top of an expression.\<close>

fun rounds :: "written \<Rightarrow> nat" where
  "rounds (Binary l operator r) = Suc (rounds l)"
| "rounds _ = 0"

text \<open>
  The precedence of the token that follows an expression, as \<^verbatim>\<open>peekPrecedence\<close> finds it:
  \<open>LOWEST\<close> at the end of the input and before a token that is no operator.
\<close>

definition following_rank :: "token list \<Rightarrow> nat" where
  "following_rank rest =
     (case rest of
        [] \<Rightarrow> Precedence_LOWEST
      | t # _ \<Rightarrow> (case precedences (Type t) of Some q \<Rightarrow> q | None \<Rightarrow> Precedence_LOWEST))"

text \<open>
  The depth of calls below \<^verbatim>\<open>parseExpression\<close> that reading an expression takes, each
  round of the loop counted as a call.
\<close>

fun depth_needed :: "written \<Rightarrow> nat" where
  "depth_needed (Binary l operator r) =
     max (depth_needed l) (rounds l + 3 + max (depth_needed r) (Suc (rounds r)))"
| "depth_needed (Parenthesised e) = 2 + max (depth_needed e) (Suc (rounds e))"
| "depth_needed _ = 0"

text \<open>The tokens of \<open>a + b * c\<close>, \<open>a * b / c\<close> and \<open>a - b - c\<close>.\<close>

definition sum_product_tokens :: "token list" where
  "sum_product_tokens =
     [name_token ''a'', symbol token_PLUS, name_token ''b'', symbol token_ASTERISK, name_token ''c'']"

definition product_chain_tokens :: "token list" where
  "product_chain_tokens =
     [name_token ''a'', symbol token_ASTERISK, name_token ''b'', symbol token_SLASH, name_token ''c'']"

definition difference_chain_tokens :: "token list" where
  "difference_chain_tokens =
     [name_token ''a'', symbol token_MINUS, name_token ''b'', symbol token_MINUS, name_token ''c'']"

text \<open>\<open>(a + 2) * c == d\<close>.\<close>

definition grouped_example :: written where
  "grouped_example =
     Binary (Binary (Parenthesised (Binary (Name ''a'') op_PLUS (Numeral ''2''))) op_ASTERISK (Name ''c''))
       op_EQ (Name ''d'')"

section \<open>Properties of the operators\<close>

lemma both_of_type_Obj [simp]:
  "both_of_type t (Obj l) (Obj r) = Ok (obj_type l = t \<and> obj_type r = t)"
  by (simp add: both_of_type_def)

lemma both_array_integer_Obj [simp]:
  "both_array_integer (Obj l) (Obj r) = Ok (obj_type l = ARRAY_OBJ \<and> obj_type r = INTEGER_OBJ)"
  by (simp add: both_array_integer_def)






lemma singletons_distinct [simp]:
  "TRUE \<noteq> FALSE" "FALSE \<noteq> TRUE"
  by (simp_all add: TRUE_def FALSE_def)

text \<open>
  Claim C8. For every operand \<open>v\<close>, \<open>!v\<close> is the \<open>TRUE\<close> object exactly when \<open>v\<close> is the
  \<open>FALSE\<close> object or the \<open>NULL\<close> object, and it is the \<open>FALSE\<close> object for every other
  value; \<open>!5\<close> evaluates to false, \<open>!!5\<close> to true and \<open>!0\<close> to false.
\<close>

theorem C8_bang_operator:
  "(evalPrefixExpression i ''!'' v = Ok TRUE
      \<longleftrightarrow> strict_equal v (Obj FALSE) \<or> strict_equal v (Obj NULL))
   \<and> (evalPrefixExpression i ''!'' v = Ok FALSE
      \<longleftrightarrow> \<not> (strict_equal v (Obj FALSE) \<or> strict_equal v (Obj NULL)))
   \<and> testEval_value 20 [symbol token_BANG, int_token ''5''] = Some (Ok (Obj FALSE))
   \<and> testEval_value 20 [symbol token_BANG, symbol token_BANG, int_token ''5''] = Some (Ok (Obj TRUE))
   \<and> testEval_value 20 [symbol token_BANG, int_token ''0''] = Some (Ok (Obj FALSE))"
proof (intro conjI)
  have bang: "evalPrefixExpression i ''!'' v
      = Ok (if strict_equal v (Obj FALSE) \<or> strict_equal v (Obj NULL) then TRUE else FALSE)"
    by (cases v)
       (auto simp: evalPrefixExpression_def evalBangOperatorExpression_def TRUE_def FALSE_def NULL_def)
  show "evalPrefixExpression i ''!'' v = Ok TRUE
      \<longleftrightarrow> strict_equal v (Obj FALSE) \<or> strict_equal v (Obj NULL)"
    by (simp add: bang)
  show "evalPrefixExpression i ''!'' v = Ok FALSE
      \<longleftrightarrow> \<not> (strict_equal v (Obj FALSE) \<or> strict_equal v (Obj NULL))"
    by (simp add: bang)
  show "testEval_value 20 [symbol token_BANG, int_token ''5''] = Some (Ok (Obj FALSE))"
    by code_simp
  show "testEval_value 20 [symbol token_BANG, symbol token_BANG, int_token ''5''] = Some (Ok (Obj TRUE))"
    by code_simp
  show "testEval_value 20 [symbol token_BANG, int_token ''0''] = Some (Ok (Obj FALSE))"
    by code_simp
qed

theorem C8_bang_operator_witness:
  "\<not> (strict_equal (Obj (IntegerObject 11 (Fin 0))) (Obj FALSE)
        \<or> strict_equal (Obj (IntegerObject 11 (Fin 0))) (Obj NULL))
   \<and> evalPrefixExpression 10 ''!'' (Obj (IntegerObject 11 (Fin 0))) = Ok FALSE
   \<and> evalPrefixExpression 10 ''!'' (Obj NULL) = Ok TRUE"
  using C8_bang_operator [of 10 "Obj (IntegerObject 11 (Fin 0))"] C8_bang_operator [of 10 "Obj NULL"]
  by (simp add: FALSE_def NULL_def)

text \<open>
  Claim C7. For an Array object with elements \<open>elements\<close> and an Integer index \<open>i\<close>, the
  index expression returns the element at position \<open>i\<close> when \<open>0 \<le> i < length elements\<close>,
  and the \<open>NULL\<close> object (not an Error) when \<open>i < 0\<close> or \<open>i \<ge> length elements\<close>.
\<close>

theorem C7_array_index:
  "evalIndexExpression k (Obj (ArrayObject a elements)) (Obj (IntegerObject b (Fin i)))
     = Ok (if 0 \<le> i \<and> i < int (length elements) then elements ! nat i else Obj NULL)"
  by (auto simp: evalIndexExpression_def evalArrayIndexExpression_def array_get_def)

theorem C7_array_index_witness:
  "evalIndexExpression 20 (Obj (ArrayObject 12 [Obj (IntegerObject 10 (Fin 1)), Obj (IntegerObject 11 (Fin 2))]))
      (Obj (IntegerObject 13 (Fin 1))) = Ok (Obj (IntegerObject 11 (Fin 2)))
   \<and> evalIndexExpression 20 (Obj (ArrayObject 12 [Obj (IntegerObject 10 (Fin 1)), Obj (IntegerObject 11 (Fin 2))]))
      (Obj (IntegerObject 13 (Fin 2))) = Ok (Obj NULL)
   \<and> evalIndexExpression 20 (Obj (ArrayObject 12 [Obj (IntegerObject 10 (Fin 1)), Obj (IntegerObject 11 (Fin 2))]))
      (Obj (IntegerObject 13 (Fin (- 1)))) = Ok (Obj NULL)"
  using C7_array_index [of 20 12 "[Obj (IntegerObject 10 (Fin 1)), Obj (IntegerObject 11 (Fin 2))]" 13 1]
        C7_array_index [of 20 12 "[Obj (IntegerObject 10 (Fin 1)), Obj (IntegerObject 11 (Fin 2))]" 13 2]
        C7_array_index [of 20 12 "[Obj (IntegerObject 10 (Fin 1)), Obj (IntegerObject 11 (Fin 2))]" 13 "- 1"]
  by simp

text \<open>
  Claim C2, as the code has it. For two operands that are objects, not both Integer and
  not both String: \<open>==\<close> yields the \<open>TRUE\<close> object exactly when both sides are the same
  object (which is so for the shared Boolean and Null objects, and also for any other
  object compared with itself), and \<open>!=\<close> yields the opposite; any other operator
  yields the Error \<open>type mismatch: L op R\<close> when the two kinds differ and the Error
  \<open>unknown operator: L op R\<close> when they are equal. \<open>5 + true\<close> yields
  \<open>type mismatch: INTEGER + BOOLEAN\<close> and \<open>true + false\<close> yields
  \<open>unknown operator: BOOLEAN + BOOLEAN\<close>.
\<close>

theorem C2_infix_other_operands:
  "(\<not> (obj_type l = INTEGER_OBJ \<and> obj_type r = INTEGER_OBJ)
      \<and> \<not> (obj_type l = STRING_OBJ \<and> obj_type r = STRING_OBJ)
    \<longrightarrow> evalInfixExpression i operator (Obj l) (Obj r) =
        Ok (if operator = ''=='' then nativeBoolToBooleanObject (identity l = identity r)
            else if operator = ''!='' then nativeBoolToBooleanObject (identity l \<noteq> identity r)
            else if obj_type l \<noteq> obj_type r
            then ErrorObject i (''type mismatch: '' @ obj_type l @ '' '' @ operator @ '' '' @ obj_type r)
            else ErrorObject i (''unknown operator: '' @ obj_type l @ '' '' @ operator @ '' '' @ obj_type r)))
   \<and> testEval_value 20 [int_token ''5'', symbol token_PLUS, TRUE_token]
       = Some (Ok (Obj (ErrorObject 11 ''type mismatch: INTEGER + BOOLEAN'')))
   \<and> testEval_value 20 [TRUE_token, symbol token_PLUS, FALSE_token]
       = Some (Ok (Obj (ErrorObject 10 ''unknown operator: BOOLEAN + BOOLEAN'')))"
proof -
  have general: "evalInfixExpression i operator (Obj l) (Obj r) =
        Ok (if operator = ''=='' then nativeBoolToBooleanObject (identity l = identity r)
            else if operator = ''!='' then nativeBoolToBooleanObject (identity l \<noteq> identity r)
            else if obj_type l \<noteq> obj_type r
            then ErrorObject i (''type mismatch: '' @ obj_type l @ '' '' @ operator @ '' '' @ obj_type r)
            else ErrorObject i (''unknown operator: '' @ obj_type l @ '' '' @ operator @ '' '' @ obj_type r))"
    if "\<not> (obj_type l = INTEGER_OBJ \<and> obj_type r = INTEGER_OBJ)
      \<and> \<not> (obj_type l = STRING_OBJ \<and> obj_type r = STRING_OBJ)"
    using that by (auto simp add: evalInfixExpression_def newError_def)
  have mismatch: "testEval_value 20 [int_token ''5'', symbol token_PLUS, TRUE_token]
       = Some (Ok (Obj (ErrorObject 11 ''type mismatch: INTEGER + BOOLEAN'')))"
    by code_simp
  have unknown: "testEval_value 20 [TRUE_token, symbol token_PLUS, FALSE_token]
       = Some (Ok (Obj (ErrorObject 10 ''unknown operator: BOOLEAN + BOOLEAN'')))"
    by code_simp
  from general mismatch unknown show ?thesis by blast
qed

theorem C2_infix_other_operands_witness:
  "\<not> (obj_type (IntegerObject 10 (Fin 5)) = INTEGER_OBJ \<and> obj_type TRUE = INTEGER_OBJ)
   \<and> \<not> (obj_type (IntegerObject 10 (Fin 5)) = STRING_OBJ \<and> obj_type TRUE = STRING_OBJ)
   \<and> evalInfixExpression 11 ''+'' (Obj (IntegerObject 10 (Fin 5))) (Obj TRUE)
       = Ok (ErrorObject 11 ''type mismatch: INTEGER + BOOLEAN'')
   \<and> evalInfixExpression 11 ''=='' (Obj TRUE) (Obj TRUE) = Ok TRUE
   \<and> evalInfixExpression 11 ''=='' (Obj (StringObject 10 ''a'')) (Obj TRUE) = Ok FALSE"
  using C2_infix_other_operands [of "IntegerObject 10 (Fin 5)" TRUE 11 "''+''"]
        C2_infix_other_operands [of TRUE TRUE 11 "''==''"]
        C2_infix_other_operands [of "StringObject 10 ''a''" TRUE 11 "''==''"]
  by (simp add: TRUE_def nativeBoolToBooleanObject_def)

text \<open>
  Claim C2 as it is written says that \<open>==\<close> yields true only for the shared Boolean and
  Null objects. An array compared with itself is a counterexample: in
  \<open>let a = [1]; a == a\<close> both operands are the same Array object and the result is
  \<open>TRUE\<close>.
\<close>

theorem C2_same_array_counterexample:
  "evalInfixExpression 15 ''=='' (Obj (ArrayObject 11 [Obj (IntegerObject 10 (Fin 1))]))
       (Obj (ArrayObject 11 [Obj (IntegerObject 10 (Fin 1))])) = Ok TRUE
   \<and> obj_type (ArrayObject 11 [Obj (IntegerObject 10 (Fin 1))]) = ARRAY_OBJ
   \<and> testEval_value 20
        [LET_token, name_token ''a'', symbol token_ASSIGN,
         symbol token_LBRACKET, int_token ''1'', symbol token_RBRACKET, symbol token_SEMICOLON,
         name_token ''a'', symbol token_EQ, name_token ''a'']
       = Some (Ok (Obj TRUE))"
proof (intro conjI)
  show "evalInfixExpression 15 ''=='' (Obj (ArrayObject 11 [Obj (IntegerObject 10 (Fin 1))]))
       (Obj (ArrayObject 11 [Obj (IntegerObject 10 (Fin 1))])) = Ok TRUE"
    by (simp add: evalInfixExpression_def nativeBoolToBooleanObject_def)
  show "obj_type (ArrayObject 11 [Obj (IntegerObject 10 (Fin 1))]) = ARRAY_OBJ"
    by simp
  show "testEval_value 20
        [LET_token, name_token ''a'', symbol token_ASSIGN,
         symbol token_LBRACKET, int_token ''1'', symbol token_RBRACKET, symbol token_SEMICOLON,
         name_token ''a'', symbol token_EQ, name_token ''a'']
       = Some (Ok (Obj TRUE))"
    by code_simp
qed

section \<open>Hash keys\<close>








lemma nat_toString_digit: "n < 10 \<Longrightarrow> nat_toString n = [digit_char n]"
  by (subst nat_toString.simps) simp






section \<open>Environments\<close>

lemma store_at_env_set:
  "store_at (env_set env name v h) a =
     (if a = store_addr env \<and> a < length (stores h) then AList.update name v (store_at h a) else store_at h a)"
  by (simp add: store_at_def env_set_def)

lemma length_stores_env_set [simp]: "length (stores (env_set env name v h)) = length (stores h)"
  by (simp add: env_set_def)

lemma next_id_env_set [simp]: "next_id (env_set env name v h) = next_id h"
  by (simp add: env_set_def)

lemma env_get_cong_stores:
  "list_all (\<lambda>a. store_at h' a = store_at h a) (env_addrs env) \<Longrightarrow> env_get h' env name = env_get h env name"
proof (induction env)
  case (Environment a out)
  then show ?case
    by (cases out) (auto simp: Let_def)
qed

lemma extendFunctionEnv_loop_frame:
  "length (stores (extendFunctionEnv_loop i ps args env h)) = length (stores h)
   \<and> next_id (extendFunctionEnv_loop i ps args env h) = next_id h
   \<and> (a \<noteq> store_addr env \<longrightarrow> store_at (extendFunctionEnv_loop i ps args env h) a = store_at h a)"
  by (induction ps arbitrary: i h) (simp_all add: store_at_env_set)

lemma extendFunctionEnv_loop_other_name:
  "x \<notin> set (map ident_value ps) \<Longrightarrow>
   map_of (store_at (extendFunctionEnv_loop i ps args env h) (store_addr env)) x
     = map_of (store_at h (store_addr env)) x"
  by (induction ps arbitrary: i h) (auto simp add: store_at_env_set update_conv')

lemma extendFunctionEnv_loop_binds:
  assumes "j < length ps"
    and "\<forall>k. j < k \<and> k < length ps \<longrightarrow> ident_value (ps ! k) \<noteq> ident_value (ps ! j)"
    and "store_addr env < length (stores h)"
  shows "map_of (store_at (extendFunctionEnv_loop i ps args env h) (store_addr env)) (ident_value (ps ! j))
           = Some (array_get args (i + j))"
  using assms
proof (induction ps arbitrary: i j h)
  case Nil
  then show ?case by simp
next
  case (Cons p ps)
  show ?case
  proof (cases j)
    case 0
    have "ident_value p \<notin> set (map ident_value ps)"
    proof
      assume "ident_value p \<in> set (map ident_value ps)"
      then obtain k where "k < length ps" "ident_value (ps ! k) = ident_value p"
        by (auto simp: in_set_conv_nth)
      with Cons.prems(2) [rule_format, of "Suc k"] 0 show False by simp
    qed
    with 0 Cons.prems(3) show ?thesis
      by (simp add: extendFunctionEnv_loop_other_name store_at_env_set update_conv')
  next
    case (Suc j')
    have later: "\<forall>k. j' < k \<and> k < length ps \<longrightarrow> ident_value (ps ! k) \<noteq> ident_value (ps ! j')"
    proof (intro allI impI)
      fix k assume "j' < k \<and> k < length ps"
      with Cons.prems(2) [rule_format, of "Suc k"] Suc
      show "ident_value (ps ! k) \<noteq> ident_value (ps ! j')" by simp
    qed
    from Cons.prems(1) Suc have "j' < length ps" by simp
    from Cons.IH [OF this later, of "env_set env (ident_value p) (array_get args i) h" "Suc i"] Cons.prems(3) Suc
    show ?thesis by simp
  qed
qed

lemma store_at_append [simp]:
  "a < length (stores h) \<Longrightarrow> store_at (h\<lparr>stores := stores h @ xs\<rparr>) a = store_at h a"
  by (simp add: store_at_def nth_append)

lemma extendFunctionEnv_shape:
  assumes "extendFunctionEnv ps fenv args h = (env, h')"
  shows "env = Environment (length (stores h)) (Some fenv)"
    and "length (stores h') = Suc (length (stores h))"
    and "next_id h' = next_id h"
    and "a < length (stores h) \<Longrightarrow> store_at h' a = store_at h a"
proof -
  let ?e = "Environment (length (stores h)) (Some fenv)"
  let ?h1 = "h\<lparr>stores := stores h @ [[]]\<rparr>"
  from assms have env: "env = ?e" and h': "h' = extendFunctionEnv_loop 0 ps args ?e ?h1"
    by (auto simp: extendFunctionEnv_def newEnclosedEnvironment_def newEnvironment_def)
  show "env = ?e" by (rule env)
  show "length (stores h') = Suc (length (stores h))"
    using extendFunctionEnv_loop_frame [of 0 ps args ?e ?h1] by (simp add: h')
  show "next_id h' = next_id h"
    using extendFunctionEnv_loop_frame [of 0 ps args ?e ?h1] by (simp add: h')
  show "store_at h' a = store_at h a" if "a < length (stores h)"
    using extendFunctionEnv_loop_frame [of 0 ps args ?e ?h1 a] that by (simp add: h')
qed

lemma env_get_unchanged:
  assumes "env_within h env"
    and "\<And>a. a < length (stores h) \<Longrightarrow> store_at h' a = store_at h a"
  shows "env_get h' env name = env_get h env name"
  using assms
  by (intro env_get_cong_stores) (simp add: env_within_def list_all_iff)

lemma extendFunctionEnv_binding:
  assumes ext: "extendFunctionEnv ps fenv args h = (env, h')"
    and j: "j < length ps"
    and last: "\<forall>k. j < k \<and> k < length ps \<longrightarrow> ident_value (ps ! k) \<noteq> ident_value (ps ! j)"
  shows "map_of (store_at h' (store_addr env)) (ident_value (ps ! j)) = Some (array_get args j)"
proof -
  let ?e = "Environment (length (stores h)) (Some fenv)"
  let ?h1 = "h\<lparr>stores := stores h @ [[]]\<rparr>"
  from ext have env: "env = ?e" and h': "h' = extendFunctionEnv_loop 0 ps args ?e ?h1"
    by (auto simp: extendFunctionEnv_def newEnclosedEnvironment_def newEnvironment_def)
  have "store_addr ?e < length (stores ?h1)" by simp
  from extendFunctionEnv_loop_binds [OF j last this, of 0 args]
  show ?thesis by (simp add: env h')
qed


lemma extendFunctionEnv_supplied:
  assumes ext: "extendFunctionEnv ps fenv args h = (env, h')"
    and j: "j < length ps"
    and supplied: "j < length args" "args ! j \<noteq> Undefined"
    and last: "\<forall>k. j < k \<and> k < length ps \<longrightarrow> ident_value (ps ! k) \<noteq> ident_value (ps ! j)"
  shows "env_get h' env (ident_value (ps ! j)) = (args ! j, True)"
proof -
  have env: "env = Environment (length (stores h)) (Some fenv)"
    using extendFunctionEnv_shape(1) [OF ext] .
  have "map_of (store_at h' (store_addr env)) (ident_value (ps ! j)) = Some (array_get args j)"
    by (rule extendFunctionEnv_binding [OF ext j last])
  with supplied show ?thesis
    by (simp add: env array_get_def)
qed



lemma applyFunction_Function:
  "applyFunction (Suc n) (Obj (FunctionObject i ps body fenv)) args h =
     (let (env, h1) = extendFunctionEnv ps fenv args h
      in andThen (evalNode n (StatementNode (BlockStmt body)) env h1) (\<lambda>evaluated h2.
           (Ok (unwrapReturnValue evaluated), h2)))"
  by simp


section \<open>Which stores an evaluation can change\<close>

lemma stores_kept_except_refl [simp]: "stores_kept_except e h h"
  by (simp add: stores_kept_except_def)

lemma stores_kept_refl [simp]: "stores_kept h h"
  by (simp add: stores_kept_def)

lemma stores_kept_except_trans:
  "stores_kept_except e h h1 \<Longrightarrow> stores_kept_except e h1 h2 \<Longrightarrow> stores_kept_except e h h2"
  by (auto simp: stores_kept_except_def)

lemma stores_kept_trans:
  "stores_kept h h1 \<Longrightarrow> stores_kept h1 h2 \<Longrightarrow> stores_kept h h2"
  by (auto simp: stores_kept_def)

lemma stores_kept_imp_except: "stores_kept h h' \<Longrightarrow> stores_kept_except e h h'"
  by (simp add: stores_kept_def stores_kept_except_def)

lemma stores_kept_fresh:
  "stores_kept h h1 \<Longrightarrow> stores_kept_except e h1 h2 \<Longrightarrow> length (stores h) \<le> e \<Longrightarrow> stores_kept h h2"
  by (auto simp: stores_kept_def stores_kept_except_def)

lemma stores_kept_allocated [simp]: "stores_kept h (allocated h)"
  by (simp add: stores_kept_def allocated_def)

lemma stores_kept_except_allocated [simp]: "stores_kept_except e h (allocated h)"
  by (simp add: stores_kept_except_def allocated_def)

lemma stores_kept_except_env_set [simp]: "stores_kept_except (store_addr env) h (env_set env name v h)"
  by (simp add: stores_kept_except_def env_set_def)

lemma stores_kept_except_andThen:
  assumes "stores_kept_except e h (snd m)"
    and "\<And>v h1. stores_kept_except e h1 (snd (f v h1))"
  shows "stores_kept_except e h (snd (andThen m f))"
proof (cases m)
  case (Pair r h1)
  with assms(1) assms(2) show ?thesis
    by (cases r) (auto intro: stores_kept_except_trans)
qed

lemma stores_kept_andThen:
  assumes "stores_kept h (snd m)"
    and "\<And>v h1. stores_kept h1 (snd (f v h1))"
  shows "stores_kept h (snd (andThen m f))"
proof (cases m)
  case (Pair r h1)
  with assms(1) assms(2) show ?thesis
    by (cases r) (auto intro: stores_kept_trans)
qed

lemma stores_kept_extendFunctionEnv:
  "extendFunctionEnv ps fenv args h = (env, h') \<Longrightarrow> stores_kept h h'"
  using extendFunctionEnv_shape(2,4) [of ps fenv args h env h']
  by (simp add: stores_kept_def store_at_def)

lemmas frame_intros =
  stores_kept_except_andThen stores_kept_except_refl stores_kept_except_allocated
  stores_kept_except_env_set

lemma eval_frame:
  "(\<forall>node env h. stores_kept_except (store_addr env) h (snd (evalNode n node env h)))
   \<and> (\<forall>program env h. stores_kept_except (store_addr env) h (snd (evalProgram n program env h)))
   \<and> (\<forall>result stmts env h.
         stores_kept_except (store_addr env) h (snd (evalProgram_loop n result stmts env h)))
   \<and> (\<forall>block env h. stores_kept_except (store_addr env) h (snd (evalBlockStatement n block env h)))
   \<and> (\<forall>result stmts env h.
         stores_kept_except (store_addr env) h (snd (evalBlockStatement_loop n result stmts env h)))
   \<and> (\<forall>condition consequence alternative env h.
         stores_kept_except (store_addr env) h
           (snd (evalIfExpression n condition consequence alternative env h)))
   \<and> (\<forall>exps env h. stores_kept_except (store_addr env) h (snd (evalExpressions n exps env h)))
   \<and> (\<forall>result exps env h.
         stores_kept_except (store_addr env) h (snd (evalExpressions_loop n result exps env h)))
   \<and> (\<forall>func args h. stores_kept h (snd (applyFunction n func args h)))
   \<and> (\<forall>pairs env h. stores_kept_except (store_addr env) h (snd (evalHashLiteral n pairs env h)))
   \<and> (\<forall>i entries pairs env h.
         stores_kept_except (store_addr env) h (snd (evalHashLiteral_loop n i entries pairs env h)))"
proof (induction n)
  case 0
  show ?case by simp
next
  case (Suc n)
  then have IH_node: "stores_kept_except (store_addr env) h (snd (evalNode n node env h))"
    and IH_program: "stores_kept_except (store_addr env) h (snd (evalProgram n program env h))"
    and IH_program_loop:
      "stores_kept_except (store_addr env) h (snd (evalProgram_loop n result stmts env h))"
    and IH_block: "stores_kept_except (store_addr env) h (snd (evalBlockStatement n block env h))"
    and IH_block_loop:
      "stores_kept_except (store_addr env) h (snd (evalBlockStatement_loop n result stmts env h))"
    and IH_if: "stores_kept_except (store_addr env) h
           (snd (evalIfExpression n condition consequence alternative env h))"
    and IH_expressions: "stores_kept_except (store_addr env) h (snd (evalExpressions n exps env h))"
    and IH_expressions_loop:
      "stores_kept_except (store_addr env) h (snd (evalExpressions_loop n vs exps env h))"
    and IH_apply: "stores_kept h (snd (applyFunction n func args h))"
    and IH_hash: "stores_kept_except (store_addr env) h (snd (evalHashLiteral n pairs env h))"
    and IH_hash_loop:
      "stores_kept_except (store_addr env) h (snd (evalHashLiteral_loop n i entries pairs env h))"
    for node program result stmts block condition consequence alternative exps vs func args pairs i entries
      and env :: environment and h :: heap
    by simp_all
  note IH_apply' = stores_kept_imp_except [OF IH_apply]
  have node: "stores_kept_except (store_addr env) h (snd (evalNode (Suc n) node env h))" for node env h
  proof (cases node)
    case NullNode
    then show ?thesis by simp
  next
    case (ProgramNode program)
    then show ?thesis by (simp add: IH_program)
  next
    case (StatementNode st)
    then show ?thesis
      by (cases st) (auto intro!: frame_intros IH_node IH_block)
  next
    case (ExpressionNode e)
    then show ?thesis
      by (cases e)
         (auto intro!: frame_intros IH_node IH_if IH_expressions IH_apply' IH_hash)
  qed
  have program: "stores_kept_except (store_addr env) h (snd (evalProgram (Suc n) program env h))"
    for program env h
    by (simp add: IH_program_loop)
  have program_loop:
    "stores_kept_except (store_addr env) h (snd (evalProgram_loop (Suc n) result stmts env h))"
    for result stmts env h
  proof (induction stmts arbitrary: result h)
    case Nil
    show ?case by simp
  next
    case (Cons st stmts)
    show ?case
      by (auto intro!: frame_intros IH_node Cons.IH split: nullable.splits)
  qed
  have block: "stores_kept_except (store_addr env) h (snd (evalBlockStatement (Suc n) block env h))"
    for block env h
    by (simp add: IH_block_loop)
  have block_loop:
    "stores_kept_except (store_addr env) h (snd (evalBlockStatement_loop (Suc n) result stmts env h))"
    for result stmts env h
  proof (induction stmts arbitrary: result h)
    case Nil
    show ?case by simp
  next
    case (Cons st stmts)
    show ?case
      by (auto intro!: frame_intros IH_node Cons.IH)
  qed
  have if_expression: "stores_kept_except (store_addr env) h
           (snd (evalIfExpression (Suc n) condition consequence alternative env h))"
    for condition consequence alternative env h
    by (auto intro!: frame_intros IH_node split: option.splits)
  have expressions: "stores_kept_except (store_addr env) h (snd (evalExpressions (Suc n) exps env h))"
    for exps env h
    by (simp add: IH_expressions_loop)
  have expressions_loop:
    "stores_kept_except (store_addr env) h (snd (evalExpressions_loop (Suc n) vs exps env h))"
    for vs exps env h
  proof (induction exps arbitrary: vs h)
    case Nil
    show ?case by simp
  next
    case (Cons e exps)
    show ?case
      by (auto intro!: frame_intros IH_node Cons.IH)
  qed
  have application: "stores_kept h (snd (applyFunction (Suc n) func args h))" for func args h
  proof (cases func)
    case (Obj ob)
    show ?thesis
    proof (cases ob)
      case (FunctionObject f ps body fenv)
      obtain callEnv h1 where ext: "extendFunctionEnv ps fenv args h = (callEnv, h1)"
        by (cases "extendFunctionEnv ps fenv args h")
      have kept: "stores_kept h h1"
        using ext by (rule stores_kept_extendFunctionEnv)
      have addr: "store_addr callEnv = length (stores h)"
        using extendFunctionEnv_shape(1) [OF ext] by simp
      have "stores_kept_except (store_addr callEnv) h1
              (snd (andThen (evalNode n (StatementNode (BlockStmt body)) callEnv h1)
                     (\<lambda>evaluated h2. (Ok (unwrapReturnValue evaluated), h2))))"
        by (auto intro!: frame_intros IH_node)
      with kept addr have "stores_kept h
              (snd (andThen (evalNode n (StatementNode (BlockStmt body)) callEnv h1)
                     (\<lambda>evaluated h2. (Ok (unwrapReturnValue evaluated), h2))))"
        by (auto intro: stores_kept_fresh)
      with Obj FunctionObject ext show ?thesis by simp
    qed (simp_all add: Obj)
  qed simp_all
  have hash: "stores_kept_except (store_addr env) h (snd (evalHashLiteral (Suc n) pairs env h))"
    for pairs env h
    using IH_hash_loop [of env "allocated h" "next_id h" "[]" pairs]
    by (auto intro: stores_kept_except_trans [OF stores_kept_except_allocated])
  have hash_loop:
    "stores_kept_except (store_addr env) h (snd (evalHashLiteral_loop (Suc n) i entries pairs env h))"
    for i entries pairs env h
  proof (induction pairs arbitrary: entries h)
    case Nil
    show ?case by simp
  next
    case (Cons pair pairs)
    show ?case
      by (cases pair) (auto intro!: frame_intros IH_node Cons.IH split: nullable.splits)
  qed
  show ?case
    by (intro conjI allI node program program_loop block block_loop if_expression
          expressions expressions_loop application hash hash_loop)
qed

lemma applyFunction_keeps_stores:
  "applyFunction n func args h = (r, h') \<Longrightarrow> stores_kept h h'"
  using eval_frame [of n] by (metis snd_conv)

lemma stores_kept_store_at:
  "stores_kept h h' \<Longrightarrow> a < length (stores h) \<Longrightarrow> store_at h' a = store_at h a"
  by (simp add: stores_kept_def store_at_def)

text \<open>
  Claim C9. \<^verbatim>\<open>Environment.set\<close> changes the store of its own environment and no other
  store, so the bindings of an outer environment whose store is another one stay as they
  are. A function call leaves every store that existed before the call as it was: for
  every environment of the heap before the call, and so for the environments that
  enclose the function, every name has the same binding after the call as before,
  whatever the body has bound with \<open>let\<close>.
\<close>

theorem C9_let_shadows_outer_binding:
  "(a \<noteq> store_addr env \<longrightarrow> store_at (env_set env name v h) a = store_at h a)
   \<and> (store_addr env \<notin> set (env_addrs outer_env)
        \<longrightarrow> env_get (env_set env name v h) outer_env x = env_get h outer_env x)
   \<and> (applyFunction n func args h = (r, h') \<and> a < length (stores h)
        \<longrightarrow> store_at h' a = store_at h a)
   \<and> (applyFunction n func args h = (r, h') \<and> env_within h outer_env
        \<longrightarrow> env_get h' outer_env x = env_get h outer_env x)
   \<and> testEval_value 40 shadowing_program
        = Some (Ok (Obj (ArrayObject 16 [Obj (IntegerObject 13 (Fin 20)), Obj (IntegerObject 10 (Fin 10))])))"
  (is "?local \<and> ?outer \<and> ?call_stores \<and> ?call_bindings \<and> ?program")
proof -
  have ?local
    by (simp add: store_at_env_set)
  moreover have ?outer
  proof
    assume "store_addr env \<notin> set (env_addrs outer_env)"
    then have "list_all (\<lambda>a. store_at (env_set env name v h) a = store_at h a) (env_addrs outer_env)"
      by (auto simp: list_all_iff store_at_env_set)
    then show "env_get (env_set env name v h) outer_env x = env_get h outer_env x"
      by (rule env_get_cong_stores)
  qed
  moreover have ?call_stores
    by (auto dest: applyFunction_keeps_stores simp: stores_kept_store_at)
  moreover have ?call_bindings
  proof
    assume *: "applyFunction n func args h = (r, h') \<and> env_within h outer_env"
    then have "stores_kept h h'"
      by (auto dest: applyFunction_keeps_stores)
    with * show "env_get h' outer_env x = env_get h outer_env x"
      by (intro env_get_unchanged) (simp_all add: stores_kept_store_at)
  qed
  moreover have ?program
    by code_simp
  ultimately show ?thesis by (intro conjI)
qed

theorem C9_let_shadows_outer_binding_witness:
  "applyFunction 10 (Obj shadowing_function) [] global_heap
     = (Ok (Obj (IntegerObject 12 (Fin 20))),
        \<lparr>stores = [[(''x'', Obj (IntegerObject 10 (Fin 10)))], [(''x'', Obj (IntegerObject 12 (Fin 20)))]],
         next_id = 14\<rparr>)
   \<and> env_within global_heap global_environment
   \<and> (0::nat) < length (stores global_heap)
   \<and> env_get \<lparr>stores = [[(''x'', Obj (IntegerObject 10 (Fin 10)))], [(''x'', Obj (IntegerObject 12 (Fin 20)))]],
               next_id = 14\<rparr> global_environment ''x''
       = (Obj (IntegerObject 10 (Fin 10)), True)
   \<and> (1::nat) \<noteq> store_addr global_environment
   \<and> store_addr (Environment 1 (Some global_environment)) \<notin> set (env_addrs global_environment)
   \<and> env_get (env_set (Environment 1 (Some global_environment)) ''x'' (Obj (IntegerObject 12 (Fin 20)))
                \<lparr>stores = [[(''x'', Obj (IntegerObject 10 (Fin 10)))], []], next_id = 13\<rparr>)
        global_environment ''x''
       = (Obj (IntegerObject 10 (Fin 10)), True)"
proof -
  let ?h' = "\<lparr>stores = [[(''x'', Obj (IntegerObject 10 (Fin 10)))], [(''x'', Obj (IntegerObject 12 (Fin 20)))]],
         next_id = 14\<rparr>"
  let ?h1 = "\<lparr>stores = [[(''x'', Obj (IntegerObject 10 (Fin 10)))], []], next_id = 13\<rparr>"
  have call: "applyFunction 10 (Obj shadowing_function) [] global_heap
     = (Ok (Obj (IntegerObject 12 (Fin 20))), ?h')"
    by code_simp
  have within: "env_within global_heap global_environment"
    by (simp add: env_within_def global_heap_def global_environment_def)
  have before: "env_get global_heap global_environment ''x'' = (Obj (IntegerObject 10 (Fin 10)), True)"
    by (simp add: global_heap_def global_environment_def store_at_def)
  have before1: "env_get ?h1 global_environment ''x'' = (Obj (IntegerObject 10 (Fin 10)), True)"
    by (simp add: global_environment_def store_at_def)
  have other: "store_addr (Environment 1 (Some global_environment)) \<notin> set (env_addrs global_environment)"
    by (simp add: global_environment_def)
  have exists: "(0::nat) < length (stores global_heap)"
    by (simp add: global_heap_def)
  have differs: "(1::nat) \<noteq> store_addr global_environment"
    by (simp add: global_environment_def)
  have after_call: "env_get ?h' global_environment ''x'' = env_get global_heap global_environment ''x''"
    using C9_let_shadows_outer_binding
         [where n = 10 and func = "Obj shadowing_function" and args = "[]" and h = global_heap
            and r = "Ok (Obj (IntegerObject 12 (Fin 20)))" and h' = ?h'
            and outer_env = global_environment and x = "''x''"]
       call within
    by simp
  have after_set:
    "env_get (env_set (Environment 1 (Some global_environment)) ''x'' (Obj (IntegerObject 12 (Fin 20))) ?h1)
        global_environment ''x'' = env_get ?h1 global_environment ''x''"
    using C9_let_shadows_outer_binding
         [where h = ?h1 and env = "Environment 1 (Some global_environment)" and name = "''x''"
            and v = "Obj (IntegerObject 12 (Fin 20))" and outer_env = global_environment and x = "''x''"]
       other
    by simp
  show ?thesis
    by (intro conjI call within exists differs other)
       (simp_all only: after_call after_set before before1)
qed


text \<open>
  Claim C6. A function literal evaluates to a Function object that holds the current
  environment itself (the reference, so that bindings made later in that environment
  are seen). Applying a Function object creates a new environment whose store is new
  and whose outer environment is the one held by the object, binds the parameters to
  the arguments by position, evaluates the body there and removes one ReturnValue
  wrapper from the result. The program
  \<open>let newAdder = fn(x) { fn(y) { x + y } }; let addTwo = newAdder(2); addTwo(3)\<close>
  evaluates to the Integer \<open>5\<close>; a function called from inside another function sees
  the bindings of its own defining environment, not those of the caller.
\<close>

theorem C6_closures:
  "evalNode (Suc n) (ExpressionNode (FunctionLiteral tok ps body)) env h
     = (Ok (Obj (FunctionObject (next_id h) ps body env)), allocated h)
   \<and> (extendFunctionEnv ps fenv args h = (callEnv, h')
        \<longrightarrow> callEnv = Environment (length (stores h)) (Some fenv)
            \<and> length (stores h') = Suc (length (stores h))
            \<and> (\<forall>a < length (stores h). store_at h' a = store_at h a))
   \<and> (extendFunctionEnv ps fenv args h = (callEnv, h')
        \<and> j < length ps \<and> j < length args \<and> args ! j \<noteq> Undefined
        \<and> (\<forall>k. j < k \<and> k < length ps \<longrightarrow> ident_value (ps ! k) \<noteq> ident_value (ps ! j))
        \<longrightarrow> env_get h' callEnv (ident_value (ps ! j)) = (args ! j, True))
   \<and> applyFunction (Suc n) (Obj (FunctionObject f ps body fenv)) args h =
       (let (callEnv, h1) = extendFunctionEnv ps fenv args h
        in andThen (evalNode n (StatementNode (BlockStmt body)) callEnv h1) (\<lambda>evaluated h2.
             (Ok (unwrapReturnValue evaluated), h2)))
   \<and> unwrapReturnValue (Obj (ReturnValue r v)) = v
   \<and> testEval_value 40 closure_program = Some (Ok (Obj (IntegerObject 18 (Fin 5))))
   \<and> testEval_value 40 lexical_scope_program = Some (Ok (Obj (IntegerObject 10 (Fin 1))))
   \<and> testEval_value 40 later_binding_program = Some (Ok (Obj (IntegerObject 11 (Fin 7))))"
  (is "?literal \<and> ?fresh \<and> ?positional \<and> ?apply \<and> ?unwrap \<and> ?closure \<and> ?lexical \<and> ?later")
proof -
  have ?literal by simp
  moreover have ?fresh
    using extendFunctionEnv_shape [of ps fenv args h callEnv h'] by simp
  moreover have ?positional
  proof
    assume *: "extendFunctionEnv ps fenv args h = (callEnv, h')
        \<and> j < length ps \<and> j < length args \<and> args ! j \<noteq> Undefined
        \<and> (\<forall>k. j < k \<and> k < length ps \<longrightarrow> ident_value (ps ! k) \<noteq> ident_value (ps ! j))"
    then show "env_get h' callEnv (ident_value (ps ! j)) = (args ! j, True)"
      by (intro extendFunctionEnv_supplied [where fenv = fenv and h = h]) simp_all
  qed
  moreover have ?apply
    by (rule applyFunction_Function)
  moreover have ?unwrap
    by (simp add: unwrapReturnValue_def)
  moreover have ?closure by code_simp
  moreover have ?lexical by code_simp
  moreover have ?later by code_simp
  ultimately show ?thesis by (intro conjI)
qed

theorem C6_closures_witness:
  "extendFunctionEnv [x_identifier] global_environment [Obj (IntegerObject 12 (Fin 2))] global_heap
     = (Environment 1 (Some global_environment),
        \<lparr>stores = [[(''x'', Obj (IntegerObject 10 (Fin 10)))], [(''x'', Obj (IntegerObject 12 (Fin 2)))]],
         next_id = 12\<rparr>)
   \<and> (0::nat) < length [x_identifier] \<and> (0::nat) < length [Obj (IntegerObject 12 (Fin 2))]
   \<and> [Obj (IntegerObject 12 (Fin 2))] ! 0 \<noteq> Undefined
   \<and> Environment 1 (Some global_environment) = Environment (length (stores global_heap)) (Some global_environment)
   \<and> env_get \<lparr>stores = [[(''x'', Obj (IntegerObject 10 (Fin 10)))], [(''x'', Obj (IntegerObject 12 (Fin 2)))]],
               next_id = 12\<rparr>
         (Environment 1 (Some global_environment)) ''x''
       = (Obj (IntegerObject 12 (Fin 2)), True)"
proof -
  let ?callEnv = "Environment 1 (Some global_environment)"
  let ?h' = "\<lparr>stores = [[(''x'', Obj (IntegerObject 10 (Fin 10)))], [(''x'', Obj (IntegerObject 12 (Fin 2)))]],
         next_id = 12\<rparr>"
  have ext: "extendFunctionEnv [x_identifier] global_environment [Obj (IntegerObject 12 (Fin 2))] global_heap
       = (?callEnv, ?h')"
    by code_simp
  have name: "ident_value ([x_identifier] ! 0) = ''x''"
    by (simp add: x_identifier_def)
  note inst = C6_closures
            [where ps = "[x_identifier]" and fenv = global_environment
               and args = "[Obj (IntegerObject 12 (Fin 2))]" and h = global_heap
               and callEnv = ?callEnv and h' = ?h' and j = 0]
  have hyp: "extendFunctionEnv [x_identifier] global_environment [Obj (IntegerObject 12 (Fin 2))] global_heap
        = (?callEnv, ?h')
      \<and> 0 < length [x_identifier] \<and> 0 < length [Obj (IntegerObject 12 (Fin 2))]
      \<and> [Obj (IntegerObject 12 (Fin 2))] ! 0 \<noteq> Undefined
      \<and> (\<forall>k. 0 < k \<and> k < length [x_identifier]
            \<longrightarrow> ident_value ([x_identifier] ! k) \<noteq> ident_value ([x_identifier] ! 0))"
    using ext by auto
  have "env_get ?h' ?callEnv (ident_value ([x_identifier] ! 0)) = ([Obj (IntegerObject 12 (Fin 2))] ! 0, True)"
    using inst [THEN conjunct2, THEN conjunct2, THEN conjunct1, THEN mp, OF hyp] .
  then have bound: "env_get ?h' ?callEnv ''x'' = (Obj (IntegerObject 12 (Fin 2)), True)"
    by (simp only: nth_Cons_0 x_identifier_def ident.sel)
  have outer: "?callEnv = Environment (length (stores global_heap)) (Some global_environment)"
    using inst [THEN conjunct2, THEN conjunct1, THEN mp, OF ext] by (rule conjunct1)
  show ?thesis
    by (intro conjI ext bound outer) simp_all
qed


section \<open>Statement sequences\<close>

lemma evalProgram_loop_passes:
  "passes program_continues n pre env result h = Some (r1, h1) \<Longrightarrow>
   evalProgram_loop (Suc n) result (pre @ rest) env h = evalProgram_loop (Suc n) r1 rest env h1"
proof (induction pre arbitrary: result h)
  case Nil
  then show ?case by simp
next
  case (Cons st pre)
  obtain out h2 where step: "evalNode n (StatementNode st) env h = (out, h2)"
    by (cases "evalNode n (StatementNode st) env h")
  with Cons.prems obtain v where out: "out = Ok v" and v: "program_continues v"
    and rest: "passes program_continues n pre env v h2 = Some (r1, h1)"
    by (cases out) (auto split: if_splits)
  from Cons.IH [OF rest] step out v show ?case
    by (cases v) auto
qed

lemma evalBlockStatement_loop_passes:
  "passes block_continues n pre env result h = Some (r1, h1) \<Longrightarrow>
   evalBlockStatement_loop (Suc n) result (pre @ rest) env h = evalBlockStatement_loop (Suc n) r1 rest env h1"
proof (induction pre arbitrary: result h)
  case Nil
  then show ?case by simp
next
  case (Cons st pre)
  obtain out h2 where step: "evalNode n (StatementNode st) env h = (out, h2)"
    by (cases "evalNode n (StatementNode st) env h")
  with Cons.prems obtain v where out: "out = Ok v" and v: "block_continues v"
    and rest: "passes block_continues n pre env v h2 = Some (r1, h1)"
    by (cases out) (auto split: if_splits)
  from Cons.IH [OF rest] step out v show ?case
    by (cases v) auto
qed

lemma evalNode_Program:
  "evalNode (Suc (Suc (Suc n))) (ProgramNode (Program stmts)) env h
     = evalProgram_loop (Suc n) Null stmts env h"
  by simp

lemma evalNode_Block:
  "evalNode (Suc (Suc (Suc n))) (StatementNode (BlockStmt (BlockStatement tok stmts))) env h
     = evalBlockStatement_loop (Suc n) Null stmts env h"
  by simp

text \<open>
  Claim C3. Let the statements \<open>pre\<close> be evaluated in order without any of them
  yielding a ReturnValue or an Error, and let the next statement \<open>s\<close> yield a
  ReturnValue or an Error, leaving the heap \<open>h2\<close>. Then the evaluation of the program
  \<open>pre @ s # post\<close> stops there, whatever the later statements \<open>post\<close> are: the heap is
  \<open>h2\<close>, and the result is the value inside the ReturnValue, or the Error. A block does
  the same but returns the ReturnValue object itself. When no statement yields a
  ReturnValue or an Error, the result is that of the last statement.
\<close>

theorem C3_statement_sequences:
  "(passes program_continues n pre env Null h = Some (r1, h1)
      \<and> evalNode n (StatementNode s) env h1 = (Ok (Obj (ReturnValue i v)), h2)
    \<longrightarrow> evalNode (Suc (Suc (Suc n))) (ProgramNode (Program (pre @ s # post))) env h = (Ok v, h2))
   \<and> (passes program_continues n pre env Null h = Some (r1, h1)
      \<and> evalNode n (StatementNode s) env h1 = (Ok (Obj (ErrorObject i message)), h2)
    \<longrightarrow> evalNode (Suc (Suc (Suc n))) (ProgramNode (Program (pre @ s # post))) env h
          = (Ok (Obj (ErrorObject i message)), h2))
   \<and> (passes program_continues n pre env Null h = Some (r1, h1)
    \<longrightarrow> evalNode (Suc (Suc (Suc n))) (ProgramNode (Program pre)) env h = (Ok r1, h1))
   \<and> (passes block_continues n pre env Null h = Some (r1, h1)
      \<and> evalNode n (StatementNode s) env h1 = (Ok (Obj (ReturnValue i v)), h2)
    \<longrightarrow> evalNode (Suc (Suc (Suc n))) (StatementNode (BlockStmt (BlockStatement tok (pre @ s # post)))) env h
          = (Ok (Obj (ReturnValue i v)), h2))
   \<and> (passes block_continues n pre env Null h = Some (r1, h1)
      \<and> evalNode n (StatementNode s) env h1 = (Ok (Obj (ErrorObject i message)), h2)
    \<longrightarrow> evalNode (Suc (Suc (Suc n))) (StatementNode (BlockStmt (BlockStatement tok (pre @ s # post)))) env h
          = (Ok (Obj (ErrorObject i message)), h2))
   \<and> (passes block_continues n pre env Null h = Some (r1, h1)
    \<longrightarrow> evalNode (Suc (Suc (Suc n))) (StatementNode (BlockStmt (BlockStatement tok pre))) env h = (Ok r1, h1))
   \<and> testEval_value 40 early_return_program = Some (Ok (Obj (IntegerObject 13 (Fin 10))))
   \<and> testEval_value 40 nested_return_program = Some (Ok (Obj (IntegerObject 12 (Fin 1))))
   \<and> testEval_value 40 nested_if_return_program = Some (Ok (Obj (IntegerObject 16 (Fin 10))))"
  (is "?program_return \<and> ?program_error \<and> ?program_all \<and> ?block_return \<and> ?block_error \<and> ?block_all
       \<and> ?early \<and> ?nested \<and> ?nested_if")
proof -
  have ?program_return
    by (auto simp: evalProgram_loop_passes simp del: evalNode.simps simp add: evalNode_Program)
  moreover have ?program_error
    by (auto simp: evalProgram_loop_passes simp del: evalNode.simps simp add: evalNode_Program)
  moreover have ?program_all
    using evalProgram_loop_passes [of n pre env Null h r1 h1 "[]"]
    by (auto simp del: evalNode.simps simp add: evalNode_Program)
  moreover have ?block_return
    by (auto simp: evalBlockStatement_loop_passes simp del: evalNode.simps simp add: evalNode_Block)
  moreover have ?block_error
    by (auto simp: evalBlockStatement_loop_passes simp del: evalNode.simps simp add: evalNode_Block)
  moreover have ?block_all
    using evalBlockStatement_loop_passes [of n pre env Null h r1 h1 "[]"]
    by (auto simp del: evalNode.simps simp add: evalNode_Block)
  moreover have ?early by code_simp
  moreover have ?nested by code_simp
  moreover have ?nested_if by code_simp
  ultimately show ?thesis by (intro conjI)
qed

theorem C3_statement_sequences_witness:
  "passes program_continues 5 [nine_statement] global_environment Null global_heap
     = Some (Obj (IntegerObject 12 (Fin 9)), global_heap\<lparr>next_id := 13\<rparr>)
   \<and> passes block_continues 5 [nine_statement] global_environment Null global_heap
     = Some (Obj (IntegerObject 12 (Fin 9)), global_heap\<lparr>next_id := 13\<rparr>)
   \<and> evalNode 5 (StatementNode return_ten_statement) global_environment (global_heap\<lparr>next_id := 13\<rparr>)
     = (Ok (Obj (ReturnValue 14 (Obj (IntegerObject 13 (Fin 10))))), global_heap\<lparr>next_id := 15\<rparr>)
   \<and> evalNode (Suc (Suc (Suc 5)))
        (ProgramNode (Program ([nine_statement] @ return_ten_statement # [nine_statement])))
        global_environment global_heap
     = (Ok (Obj (IntegerObject 13 (Fin 10))), global_heap\<lparr>next_id := 15\<rparr>)
   \<and> evalNode (Suc (Suc (Suc 5)))
        (StatementNode (BlockStmt (BlockStatement (symbol token_LBRACE)
           ([nine_statement] @ return_ten_statement # [nine_statement]))))
        global_environment global_heap
     = (Ok (Obj (ReturnValue 14 (Obj (IntegerObject 13 (Fin 10))))), global_heap\<lparr>next_id := 15\<rparr>)"
proof -
  have program_pre: "passes program_continues 5 [nine_statement] global_environment Null global_heap
     = Some (Obj (IntegerObject 12 (Fin 9)), global_heap\<lparr>next_id := 13\<rparr>)"
    by code_simp
  have block_pre: "passes block_continues 5 [nine_statement] global_environment Null global_heap
     = Some (Obj (IntegerObject 12 (Fin 9)), global_heap\<lparr>next_id := 13\<rparr>)"
    by code_simp
  have stop: "evalNode 5 (StatementNode return_ten_statement) global_environment (global_heap\<lparr>next_id := 13\<rparr>)
     = (Ok (Obj (ReturnValue 14 (Obj (IntegerObject 13 (Fin 10))))), global_heap\<lparr>next_id := 15\<rparr>)"
    by code_simp
  note inst = C3_statement_sequences
      [where n = 5 and pre = "[nine_statement]" and env = global_environment and h = global_heap
         and ?r1.0 = "Obj (IntegerObject 12 (Fin 9))" and ?h1.0 = "global_heap\<lparr>next_id := 13\<rparr>"
         and s = return_ten_statement and i = 14 and v = "Obj (IntegerObject 13 (Fin 10))"
         and ?h2.0 = "global_heap\<lparr>next_id := 15\<rparr>" and post = "[nine_statement]"
         and tok = "symbol token_LBRACE"]
  have program: "evalNode (Suc (Suc (Suc 5)))
        (ProgramNode (Program ([nine_statement] @ return_ten_statement # [nine_statement])))
        global_environment global_heap
     = (Ok (Obj (IntegerObject 13 (Fin 10))), global_heap\<lparr>next_id := 15\<rparr>)"
    using inst [THEN conjunct1, THEN mp, OF conjI, OF program_pre stop] .
  have block: "evalNode (Suc (Suc (Suc 5)))
        (StatementNode (BlockStmt (BlockStatement (symbol token_LBRACE)
           ([nine_statement] @ return_ten_statement # [nine_statement]))))
        global_environment global_heap
     = (Ok (Obj (ReturnValue 14 (Obj (IntegerObject 13 (Fin 10))))), global_heap\<lparr>next_id := 15\<rparr>)"
    using inst [THEN conjunct2, THEN conjunct2, THEN conjunct2, THEN conjunct1, THEN mp, OF conjI,
                OF block_pre stop] .
  show ?thesis
    by (intro conjI program_pre block_pre stop program block)
qed

section \<open>The parser reads infix expressions by precedence\<close>

lemma newParser_Nil:
  "newParser [] = \<lparr>lexer = [], errors = [], curToken = Token token_EOF [], peekToken = Token token_EOF []\<rparr>"
  by (simp add: newParser_def nextToken_def)

lemma newParser_single:
  "newParser [t] = \<lparr>lexer = [], errors = [], curToken = t, peekToken = Token token_EOF []\<rparr>"
  by (simp add: newParser_def nextToken_def)

lemma newParser_Cons_Cons:
  "newParser (t # u # ts) = \<lparr>lexer = ts, errors = [], curToken = t, peekToken = u\<rparr>"
  by (simp add: newParser_def nextToken_def)

lemma nextToken_newParser [simp]: "nextToken (newParser (t # ts)) = newParser ts"
proof (cases ts)
  case Nil
  then show ?thesis by (simp add: newParser_single newParser_Nil nextToken_def)
next
  case (Cons u us)
  then show ?thesis
    by (cases us) (simp_all add: newParser_single newParser_Cons_Cons nextToken_def)
qed

lemma curToken_newParser [simp]: "curToken (newParser (t # ts)) = t"
  by (cases ts) (simp_all add: newParser_single newParser_Cons_Cons)

lemma peekToken_newParser [simp]: "peekToken (newParser (t # u # ts)) = u"
  by (simp add: newParser_Cons_Cons)

lemma errors_newParser [simp]: "errors (newParser ts) = []"
proof (cases ts)
  case Nil
  then show ?thesis by (simp add: newParser_Nil)
next
  case (Cons u us)
  then show ?thesis
    by (cases us) (simp_all add: newParser_single newParser_Cons_Cons)
qed

lemma peekPrecedence_newParser [simp]:
  "peekPrecedence (newParser (t # rest)) = following_rank rest"
  by (cases rest) (simp_all add: peekPrecedence_def following_rank_def newParser_single newParser_Cons_Cons)

lemma peekTokenIs_newParser:
  "peekTokenIs k (newParser (t # rest)) = (case rest of [] \<Rightarrow> k = token_EOF | u # _ \<Rightarrow> Type u = k)"
  by (cases rest) (auto simp add: peekTokenIs_def newParser_single newParser_Cons_Cons)

lemma precedences_operator [simp]: "precedences (operator_type operator) = Some (operator_rank operator)"
  by (cases operator) (simp_all add: Precedence_defs)

lemma infixParseFns_operator [simp]: "infixParseFns (operator_type operator) = Some parseInfixExpression_fn"
  by (cases operator) simp_all

lemma operator_not_semicolon [simp]: "operator_type operator \<noteq> token_SEMICOLON"
  by (cases operator) simp_all

lemma operator_rank_bounds: "1 < operator_rank operator" "operator_rank operator < 9"
  by (cases operator; simp)+

lemma parseInt_digits:
  assumes "d \<noteq> []" "list_all isDigit d"
  shows "parseInt d = Fin (digits_value d)"
proof -
  from assms obtain c cs where d: "d = c # cs" and c: "isDigit c"
    by (cases d) auto
  from c have start: "\<not> isWhiteSpace c" "c \<noteq> CHR ''-''" "c \<noteq> CHR ''+''"
    by (auto simp: isDigit_def isWhiteSpace_def)
  from assms have run: "takeWhile isDigit cs = cs"
    by (simp add: list_all_iff d)
  show ?thesis
    by (simp add: parseInt_def d start c run)
qed

lemma tokens_of_not_Nil [simp]: "tokens_of e \<noteq> []"
  by (induction e) simp_all

lemma last_tokens_of_Binary [simp]:
  "last (tokens_of (Binary l operator r)) = last (tokens_of r)"
  by simp

lemma Type_symbol [simp]: "Type (symbol t) = t"
  by (simp add: symbol_def)

lemma Literal_symbol [simp]: "Literal (symbol t) = tokenType_text t"
  by (simp add: symbol_def)

lemma following_rank_operator [simp]:
  "following_rank (symbol (operator_type operator) # ts) = operator_rank operator"
  by (simp add: following_rank_def)

lemma following_rank_RPAREN [simp]:
  "following_rank (symbol token_RPAREN # ts) = Precedence_LOWEST"
  by (simp add: following_rank_def)

lemma following_rank_Nil [simp]: "following_rank [] = Precedence_LOWEST"
  by (simp add: following_rank_def)

lemma LOWEST_less_rank: "Precedence_LOWEST < rank e"
proof (cases e)
  case (Binary l operator r)
  then show ?thesis
    using operator_rank_bounds(1) [of operator] by (simp add: Precedence_LOWEST_def)
qed (simp_all add: Precedence_LOWEST_def)

lemma parseExpression_loop_stops:
  "following_rank rest \<le> m \<Longrightarrow>
   parseExpression_loop (Suc k) m left (newParser (t # rest)) = Some (Some left, newParser (t # rest))"
  by simp

lemma parseExpression_written:
  "well_written e \<Longrightarrow> m < rank e \<Longrightarrow> following_rank rest \<le> rank e \<Longrightarrow> depth_needed e \<le> n \<Longrightarrow>
   parseExpression (Suc n) m (newParser (tokens_of e @ rest)) =
   parseExpression_loop (n - rounds e) m (tree_of e) (newParser (last (tokens_of e) # rest))"
proof (induction e arbitrary: m rest n)
  case (Name x)
  show ?case
    by (simp add: name_token_def parseIdentifier_def)
next
  case (Numeral d)
  then have "parseInt d = Fin (digits_value d)"
    by (simp add: parseInt_digits)
  then show ?case
    by (simp add: int_token_def parseIntegerLiteral_def isNaN_def)
next
  case (Binary l operator r)
  let ?sym = "symbol (operator_type operator)"
  from Binary.prems have wl: "well_written l" and wr: "well_written r"
    and rl: "operator_rank operator \<le> rank l" and rr: "operator_rank operator < rank r"
    and m: "m < operator_rank operator" and rest: "following_rank rest \<le> operator_rank operator"
    and nl: "depth_needed l \<le> n"
    and nr: "rounds l + 3 + max (depth_needed r) (Suc (rounds r)) \<le> n"
    by simp_all
  define c where "c = n - rounds l - 3"
  from nr have fuel: "n - rounds l = Suc (Suc (Suc c))" and cr: "depth_needed r \<le> c"
    and cl: "c - rounds r = Suc (c - rounds r - 1)"
    by (simp_all add: c_def)
  have left: "parseExpression (Suc n) m (newParser (tokens_of l @ ?sym # tokens_of r @ rest)) =
      parseExpression_loop (Suc (Suc (Suc c))) m (tree_of l)
        (newParser (last (tokens_of l) # ?sym # tokens_of r @ rest))"
    using Binary.IH(1) [OF wl, of m "?sym # tokens_of r @ rest" n] m rl nl fuel by simp
  have "parseExpression (Suc c) (operator_rank operator) (newParser (tokens_of r @ rest)) =
      parseExpression_loop (c - rounds r) (operator_rank operator) (tree_of r)
        (newParser (last (tokens_of r) # rest))"
    using Binary.IH(2) [OF wr, of "operator_rank operator" rest c] rr rest cr by simp
  also have "\<dots> = Some (Some (tree_of r), newParser (last (tokens_of r) # rest))"
    using parseExpression_loop_stops [OF rest] cl by metis
  finally have right: "parseExpression (Suc c) (operator_rank operator) (newParser (tokens_of r @ rest)) =
      Some (Some (tree_of r), newParser (last (tokens_of r) # rest))" .
  have "parseInfixExpression (Suc (Suc c)) (tree_of l) (newParser (?sym # tokens_of r @ rest)) =
      Some (Some (tree_of (Binary l operator r)), newParser (last (tokens_of r) # rest))"
    by (simp add: curPrecedence_def right del: parseExpression.simps)
  then have "parseExpression_loop (Suc (Suc (Suc c))) m (tree_of l)
        (newParser (last (tokens_of l) # ?sym # tokens_of r @ rest)) =
      parseExpression_loop (Suc (Suc c)) m (tree_of (Binary l operator r))
        (newParser (last (tokens_of r) # rest))"
    using m by (simp add: peekTokenIs_newParser del: parseInfixExpression.simps)
  moreover from fuel have "n - rounds (Binary l operator r) = Suc (Suc c)"
    by simp
  ultimately show ?case
    using left by (simp del: parseExpression.simps parseExpression_loop.simps)
next
  case (Parenthesised e)
  from Parenthesised.prems have we: "well_written e"
    and ne: "2 + max (depth_needed e) (Suc (rounds e)) \<le> n"
    by simp_all
  define c where "c = n - 2"
  from ne have fuel: "n = Suc (Suc c)" and ce: "depth_needed e \<le> c"
    and cl: "c - rounds e = Suc (c - rounds e - 1)"
    by (simp_all add: c_def)
  have "parseExpression (Suc c) Precedence_LOWEST (newParser (tokens_of e @ symbol token_RPAREN # rest)) =
      parseExpression_loop (c - rounds e) Precedence_LOWEST (tree_of e)
        (newParser (last (tokens_of e) # symbol token_RPAREN # rest))"
    using Parenthesised.IH [OF we, of Precedence_LOWEST "symbol token_RPAREN # rest" c]
      LOWEST_less_rank [of e] ce by (simp add: less_imp_le)
  also have "\<dots> = Some (Some (tree_of e), newParser (last (tokens_of e) # symbol token_RPAREN # rest))"
    using parseExpression_loop_stops [of "symbol token_RPAREN # rest" Precedence_LOWEST] cl
    by (metis following_rank_RPAREN order_refl)
  finally have inner: "parseExpression (Suc c) Precedence_LOWEST (newParser (tokens_of e @ symbol token_RPAREN # rest)) =
      Some (Some (tree_of e), newParser (last (tokens_of e) # symbol token_RPAREN # rest))" .
  have "parseGroupedExpression (Suc (Suc c)) (newParser (symbol token_LPAREN # tokens_of e @ symbol token_RPAREN # rest)) =
      Some (Some (tree_of e), newParser (symbol token_RPAREN # rest))"
    by (simp add: inner expectPeek_def peekTokenIs_newParser del: parseExpression.simps)
  then show ?case
    by (simp add: fuel del: parseGroupedExpression.simps parseExpression_loop.simps)
qed

lemma rounds_less_written_size: "rounds e < written_size e"
  by (induction e) simp_all

lemma depth_needed_bound: "depth_needed e + 4 \<le> 4 * written_size e"
proof (induction e)
  case (Binary l operator r)
  then show ?case
    using rounds_less_written_size [of l] rounds_less_written_size [of r] by simp
next
  case (Parenthesised e)
  then show ?case
    using rounds_less_written_size [of e] by simp
qed simp_all

lemma parseExpression_reads:
  assumes "well_written e" and "m < rank e" and "following_rank rest \<le> m"
    and "4 * written_size e \<le> n"
  shows "parseExpression n m (newParser (tokens_of e @ rest)) =
    Some (Some (tree_of e), newParser (last (tokens_of e) # rest))"
proof -
  define k where "k = n - 1"
  from assms(4) depth_needed_bound [of e] rounds_less_written_size [of e]
  have n: "n = Suc k" and k: "depth_needed e \<le> k" and loop: "k - rounds e = Suc (k - rounds e - 1)"
    by (simp_all add: k_def)
  from assms have "parseExpression (Suc k) m (newParser (tokens_of e @ rest)) =
      parseExpression_loop (k - rounds e) m (tree_of e) (newParser (last (tokens_of e) # rest))"
    by (intro parseExpression_written k) simp_all
  also have "\<dots> = Some (Some (tree_of e), newParser (last (tokens_of e) # rest))"
    using parseExpression_loop_stops [OF assms(3)] loop by metis
  finally show ?thesis
    by (simp only: n)
qed

lemma first_token:
  "\<exists>t ts. tokens_of e = t # ts \<and> Type t \<in> {token_IDENT, token_INT, token_LPAREN}"
  by (induction e) (auto simp: name_token_def int_token_def)

lemma parseProgram_reads:
  assumes "well_written e" and "4 * written_size e + 3 \<le> n"
  shows "parseProgram n (newParser (tokens_of e)) =
    Some (Program [ExpressionStatement (hd (tokens_of e)) (tree_of e)], newParser [])"
proof -
  define k where "k = n - 3"
  from assms(2) have n: "n = Suc (Suc (Suc k))" and k: "4 * written_size e \<le> k"
    by (simp_all add: k_def)
  from k have k': "k = Suc (k - 1)"
    using rounds_less_written_size [of e] by simp
  obtain t ts where tokens: "tokens_of e = t # ts"
    and t: "Type t \<in> {token_IDENT, token_INT, token_LPAREN}"
    using first_token by blast
  have "parseExpression k Precedence_LOWEST (newParser (tokens_of e @ [])) =
      Some (Some (tree_of e), newParser (last (tokens_of e) # []))"
    using assms(1) k by (intro parseExpression_reads LOWEST_less_rank) simp_all
  then have expression: "parseExpression k Precedence_LOWEST (newParser (t # ts)) =
      Some (Some (tree_of e), newParser [last (t # ts)])"
    by (simp add: tokens)
  have "parseExpressionStatement (Suc k) (newParser (t # ts)) =
      Some (Some (ExpressionStatement t (tree_of e)), newParser [last (t # ts)])"
    by (simp add: expression peekTokenIs_newParser del: parseExpression.simps)
  then have statement: "parseStatement (Suc (Suc k)) (newParser (t # ts)) =
      Some (Some (ExpressionStatement t (tree_of e)), newParser [last (t # ts)])"
    using t by (auto simp del: parseExpressionStatement.simps)
  have "curTokenIs token_EOF (newParser [])"
    by (simp add: curTokenIs_def newParser_Nil)
  then have last_round: "parseProgram_loop (Suc (Suc k)) [ExpressionStatement t (tree_of e)] (newParser []) =
      Some ([ExpressionStatement t (tree_of e)], newParser [])"
    by simp
  have start: "\<not> curTokenIs token_EOF (newParser (t # ts))"
    using t by (auto simp: curTokenIs_def)
  have "parseProgram_loop (Suc (Suc (Suc k))) [] (newParser (t # ts)) =
      Some ([ExpressionStatement t (tree_of e)], newParser [])"
    by (subst parseProgram_loop.simps)
       (simp add: start statement last_round del: parseProgram_loop.simps parseStatement.simps)
  then show ?thesis
    by (simp add: parseProgram_def n tokens)
qed

text \<open>
  Claim C4. The parser reads an expression built from identifiers, integer literals,
  the binary operators \<open>+ - * / < > == !=\<close> and parentheses as precedence and left
  association demand. Given enough depth of calls: (1) \<^verbatim>\<open>parseExpression\<close> at a minimum
  precedence \<open>m\<close>, on an expression of rank above \<open>m\<close> followed by the end of the input
  or by a token of precedence at most \<open>m\<close>, yields the tree of exactly that expression and
  stops on its last token; (2) \<^verbatim>\<open>parseProgram\<close> yields the program of that one expression
  statement and reports no error; (3) of two operators in \<open>a o1 b o2 c\<close>, the second takes
  \<open>b\<close> when its precedence is higher, and the first takes it otherwise, so operators of
  equal precedence group to the left; (4) \<open>a + b * c\<close>, \<open>a * b / c\<close> and \<open>a - b - c\<close> are
  rendered as \<open>(a + (b * c))\<close>, \<open>((a * b) / c)\<close> and \<open>((a - b) - c)\<close>.
\<close>

theorem C4_precedence_and_left_association:
  "(well_written e \<and> m < rank e \<and> following_rank rest \<le> m \<and> 4 * written_size e \<le> n \<longrightarrow>
      parseExpression n m (newParser (tokens_of e @ rest)) =
        Some (Some (tree_of e), newParser (last (tokens_of e) # rest)))
   \<and> (well_written e \<and> 4 * written_size e + 3 \<le> n \<longrightarrow>
      parseProgram n (newParser (tokens_of e)) =
        Some (Program [ExpressionStatement (hd (tokens_of e)) (tree_of e)], newParser [])
      \<and> errors (newParser []) = [])
   \<and> (23 \<le> n \<longrightarrow>
      parseProgram n (newParser [name_token a, symbol (operator_type o1), name_token b,
                                 symbol (operator_type o2), name_token c]) =
        Some (Program [ExpressionStatement (name_token a)
                (if operator_rank o1 < operator_rank o2
                 then tree_of (Binary (Name a) o1 (Binary (Name b) o2 (Name c)))
                 else tree_of (Binary (Binary (Name a) o1 (Name b)) o2 (Name c)))], newParser []))
   \<and> map_option (program_toString \<circ> fst) (parseProgram 23 (newParser sum_product_tokens)) =
        Some ''(a + (b * c))''
   \<and> map_option (program_toString \<circ> fst) (parseProgram 23 (newParser product_chain_tokens)) =
        Some ''((a * b) / c)''
   \<and> map_option (program_toString \<circ> fst) (parseProgram 23 (newParser difference_chain_tokens)) =
        Some ''((a - b) - c)''"
  (is "?expression \<and> ?program \<and> ?two \<and> ?sum \<and> ?product \<and> ?difference")
proof -
  have ?expression
    by (simp add: parseExpression_reads)
  moreover have ?program
    by (simp add: parseProgram_reads)
  moreover have ?two
  proof (cases "operator_rank o1 < operator_rank o2")
    case True
    then have "well_written (Binary (Name a) o1 (Binary (Name b) o2 (Name c)))"
      using operator_rank_bounds(2) [of o1] operator_rank_bounds(2) [of o2] by simp
    from parseProgram_reads [OF this] True show ?thesis
      by simp
  next
    case False
    then have "well_written (Binary (Binary (Name a) o1 (Name b)) o2 (Name c))"
      using operator_rank_bounds(2) [of o1] operator_rank_bounds(2) [of o2] by simp
    from parseProgram_reads [OF this] False show ?thesis
      by simp
  qed
  moreover have ?sum
    by code_simp
  moreover have ?product
    by code_simp
  moreover have ?difference
    by code_simp
  ultimately show ?thesis
    by (intro conjI)
qed

theorem C4_precedence_and_left_association_witness:
  "well_written grouped_example \<and> Precedence_LOWEST < rank grouped_example
   \<and> following_rank [symbol token_SEMICOLON] \<le> Precedence_LOWEST
   \<and> 4 * written_size grouped_example + 3 \<le> 40
   \<and> parseExpression 40 Precedence_LOWEST
        (newParser (tokens_of grouped_example @ [symbol token_SEMICOLON])) =
        Some (Some (tree_of grouped_example), newParser [name_token ''d'', symbol token_SEMICOLON])
   \<and> parseProgram 40 (newParser (tokens_of grouped_example)) =
        Some (Program [ExpressionStatement (symbol token_LPAREN) (tree_of grouped_example)], newParser [])
   \<and> parseProgram 40 (newParser sum_product_tokens) =
        Some (Program [ExpressionStatement (name_token ''a'')
          (tree_of (Binary (Name ''a'') op_PLUS (Binary (Name ''b'') op_ASTERISK (Name ''c''))))], newParser [])"
proof -
  note inst = C4_precedence_and_left_association
    [where e = grouped_example and m = Precedence_LOWEST and rest = "[symbol token_SEMICOLON]"
       and n = 40 and ?o1.0 = op_PLUS and ?o2.0 = op_ASTERISK
       and a = "''a''" and b = "''b''" and c = "''c''"]
  have written: "well_written grouped_example"
    by (simp add: grouped_example_def isDigit_def)
  have rank: "Precedence_LOWEST < rank grouped_example"
    by (simp add: grouped_example_def Precedence_LOWEST_def)
  have following: "following_rank [symbol token_SEMICOLON] \<le> Precedence_LOWEST"
    by (simp add: following_rank_def)
  have size: "4 * written_size grouped_example + 3 \<le> 40"
    by (simp add: grouped_example_def)
  then have size': "4 * written_size grouped_example \<le> 40"
    by simp
  have tokens: "last (tokens_of grouped_example) = name_token ''d''"
      "hd (tokens_of grouped_example) = symbol token_LPAREN"
    by (simp_all add: grouped_example_def)
  have "parseExpression 40 Precedence_LOWEST
        (newParser (tokens_of grouped_example @ [symbol token_SEMICOLON])) =
        Some (Some (tree_of grouped_example), newParser (last (tokens_of grouped_example) # [symbol token_SEMICOLON]))"
    using inst [THEN conjunct1] written rank following size' by blast
  moreover have "parseProgram 40 (newParser (tokens_of grouped_example)) =
        Some (Program [ExpressionStatement (hd (tokens_of grouped_example)) (tree_of grouped_example)], newParser [])"
    using inst [THEN conjunct2, THEN conjunct1] written size by blast
  moreover have "parseProgram 40 (newParser sum_product_tokens) =
        Some (Program [ExpressionStatement (name_token ''a'')
          (tree_of (Binary (Name ''a'') op_PLUS (Binary (Name ''b'') op_ASTERISK (Name ''c''))))], newParser [])"
    using inst [THEN conjunct2, THEN conjunct2, THEN conjunct1]
    by (simp add: sum_product_tokens_def)
  ultimately show ?thesis
    using written rank following size by (simp only: tokens)
qed

end
